theory Spec2Isabelle
  imports Complex_Main
begin

section \<open>ASEAN carbon simulator: the computation helpers of app.py\<close>

text \<open>
  The development embeds the helper functions of \<^verbatim>\<open>app.py\<close>
  (\<^verbatim>\<open>calculate_carbon_liability\<close>, \<^verbatim>\<open>get_divergence_metrics\<close>,
  \<^verbatim>\<open>calculate_integration_roi\<close>, \<^verbatim>\<open>get_phase_progress\<close>,
  \<^verbatim>\<open>simulate_price_convergence\<close>) and the NPV loop of the liability calculator tab.

  Conventions of the embedding:
  \<^item> Python \<^verbatim>\<open>int\<close> is \<^typ>\<open>int\<close>; a value that is an \<^verbatim>\<open>int\<close> in the source but only
    ever flows into float arithmetic is read as a \<^typ>\<open>real\<close>;
  \<^item> floating-point rounding is left out everywhere. Where the operands are bounded (the
    embedded tables, the years 2024 to 2050, the values of the widgets) a Python
    \<^verbatim>\<open>float\<close> is read as the exact \<^typ>\<open>real\<close>. \<^verbatim>\<open>calculate_carbon_liability\<close> takes its
    price, rate and horizon as free parameters, so there the range of the doubles is
    kept: overflow to infinity, OverflowError of a power, underflow to zero
    (type \<open>pyfloat\<close> and its operations);
  \<^item> a raised exception is the left summand of \<open>error + 'a\<close>;
  \<^item> a dictionary iterated in insertion order is an association list;
  \<^item> the module-level tables are constants, and each helper that reads a table has a
    worker taking the table as an argument, the helper being the worker at the constant.
\<close>

subsection \<open>Exceptions and Python built-ins\<close>

datatype error = KeyError | ZeroDivisionError | ValueError | OverflowError

text \<open>\<^verbatim>\<open>a / b\<close>: true division raises on a zero divisor.\<close>

definition truediv :: "real \<Rightarrow> real \<Rightarrow> error + real" where
  "truediv a b = (if b = 0 then Inl ZeroDivisionError else Inr (a / b))"

text \<open>\<^verbatim>\<open>max(xs)\<close> and \<^verbatim>\<open>min(xs)\<close>: both raise ValueError on an empty sequence.\<close>

fun py_max :: "('a::linorder) list \<Rightarrow> error + 'a" where
  "py_max [] = Inl ValueError"
| "py_max (x # xs) = Inr (fold max xs x)"

fun py_min :: "('a::linorder) list \<Rightarrow> error + 'a" where
  "py_min [] = Inl ValueError"
| "py_min (x # xs) = Inr (fold min xs x)"

text \<open>\<^verbatim>\<open>d[k]\<close> on a dictionary: KeyError when the key is absent.\<close>

definition getitem :: "('k \<times> 'v) list \<Rightarrow> 'k \<Rightarrow> error + 'v" where
  "getitem d k = (case map_of d k of None \<Rightarrow> Inl KeyError | Some v \<Rightarrow> Inr v)"

subsection \<open>Data definitions\<close>

text \<open>
  One entry of \<^verbatim>\<open>COUNTRY_DATA\<close>. The \<^verbatim>\<open>flag\<close> field (an emoji used only for display)
  is left out.
\<close>

record country =
  refineries :: int
  capacity_kbpd :: real
  govt_ownership :: real
  carbon_price_2024 :: real
  carbon_price_2030 :: real
  ets_status :: string
  ets_launch_year :: int
  coverage_pct :: int
  total_liability_b :: real
  govt_exposure_b :: real
  avg_refinery_age :: int

definition COUNTRY_DATA :: "(string \<times> country) list" where
  "COUNTRY_DATA =
   [(''Singapore'',
      \<lparr>refineries = 3, capacity_kbpd = 1512, govt_ownership = 13 / 100,
       carbon_price_2024 = 59, carbon_price_2030 = 75, ets_status = ''Operational'',
       ets_launch_year = 2019, coverage_pct = 80, total_liability_b = 52 / 10,
       govt_exposure_b = 9 / 10, avg_refinery_age = 45\<rparr>),
    (''Thailand'',
      \<lparr>refineries = 6, capacity_kbpd = 1240, govt_ownership = 36 / 100,
       carbon_price_2024 = 35, carbon_price_2030 = 50, ets_status = ''Development'',
       ets_launch_year = 2025, coverage_pct = 60, total_liability_b = 41 / 10,
       govt_exposure_b = 19 / 10, avg_refinery_age = 38\<rparr>),
    (''Indonesia'',
      \<lparr>refineries = 8, capacity_kbpd = 1050, govt_ownership = 1,
       carbon_price_2024 = 25, carbon_price_2030 = 35, ets_status = ''Operational'',
       ets_launch_year = 2023, coverage_pct = 50, total_liability_b = 71 / 10,
       govt_exposure_b = 71 / 10, avg_refinery_age = 52\<rparr>),
    (''Malaysia'',
      \<lparr>refineries = 5, capacity_kbpd = 612, govt_ownership = 80 / 100,
       carbon_price_2024 = 0, carbon_price_2030 = 15, ets_status = ''Voluntary'',
       ets_launch_year = 2030, coverage_pct = 30, total_liability_b = 27 / 10,
       govt_exposure_b = 27 / 10, avg_refinery_age = 33\<rparr>),
    (''Vietnam'',
      \<lparr>refineries = 3, capacity_kbpd = 346, govt_ownership = 71 / 100,
       carbon_price_2024 = 20, carbon_price_2030 = 40, ets_status = ''Development'',
       ets_launch_year = 2028, coverage_pct = 45, total_liability_b = 12 / 10,
       govt_exposure_b = 8 / 10, avg_refinery_age = 10\<rparr>)]"

text \<open>One entry of \<^verbatim>\<open>INVESTMENT_REQUIREMENTS\<close> (the description text is left out).\<close>

record investment =
  component :: string
  amount_m :: int
  timeline :: string

definition INVESTMENT_REQUIREMENTS :: "investment list" where
  "INVESTMENT_REQUIREMENTS =
   [\<lparr>component = ''MRV Infrastructure'', amount_m = 85, timeline = ''2025-2028''\<rparr>,
    \<lparr>component = ''Registry Systems'', amount_m = 45, timeline = ''2025-2027''\<rparr>,
    \<lparr>component = ''Capacity Building'', amount_m = 35, timeline = ''2025-2030''\<rparr>,
    \<lparr>component = ''Market Infrastructure'', amount_m = 40, timeline = ''2027-2030''\<rparr>,
    \<lparr>component = ''Coordination Body'', amount_m = 24, timeline = ''2025-2030''\<rparr>]"

subsection \<open>calculate\_integration\_roi\<close>

record roi =
  total_investment :: int
  total_benefits :: int
  benefit_cost_ratio :: real
  annual_savings :: int
  payback_years :: real

text \<open>
  The body of \<^verbatim>\<open>calculate_integration_roi\<close>, with the investment table as an argument.
  The benefit figures and the ten years are local constants of the source; the local
  \<^verbatim>\<open>liability_managed\<close>, which the source never reads, is left out. Both divisions
  raise on a zero divisor.
\<close>

definition integration_roi_of :: "investment list \<Rightarrow> error + roi" where
  "integration_roi_of items =
    (let total_investment = sum_list (map amount_m items);
         annual_operational_savings = (18::int);
         annual_market_efficiency = (50::int);
         climate_benefits_npv = (200::int);
         years = (10::int);
         total_benefits =
           (annual_operational_savings + annual_market_efficiency) * years + climate_benefits_npv
     in case truediv (of_int total_benefits) (of_int total_investment) of
          Inl e \<Rightarrow> Inl e
        | Inr ratio \<Rightarrow>
           (case truediv (of_int total_investment)
                   (of_int (annual_operational_savings + annual_market_efficiency)) of
              Inl e \<Rightarrow> Inl e
            | Inr payback \<Rightarrow>
                Inr \<lparr>total_investment = total_investment,
                     total_benefits = total_benefits,
                     benefit_cost_ratio = ratio,
                     annual_savings = annual_operational_savings + annual_market_efficiency,
                     payback_years = payback\<rparr>))"

definition calculate_integration_roi :: "error + roi" where
  "calculate_integration_roi = integration_roi_of INVESTMENT_REQUIREMENTS"

subsection \<open>get\_phase\_progress\<close>

text \<open>An entry of the local \<^verbatim>\<open>phases\<close> dictionary (\<^verbatim>\<open>start\<close>, \<^verbatim>\<open>end\<close>, \<^verbatim>\<open>name\<close>).\<close>

record phase_info =
  p_start :: int
  p_end :: int
  p_name :: string

text \<open>An element of the returned list (\<^verbatim>\<open>phase\<close>, \<^verbatim>\<open>name\<close>, \<^verbatim>\<open>start\<close>, \<^verbatim>\<open>end\<close>,
  \<^verbatim>\<open>progress\<close>, \<^verbatim>\<open>status\<close>).\<close>

record phase_result =
  phase :: string
  r_name :: string
  r_start :: int
  r_end :: int
  progress :: real
  status :: string

definition phases :: "(string \<times> phase_info) list" where
  "phases =
   [(''Phase 1'', \<lparr>p_start = 2025, p_end = 2028, p_name = ''Foundation''\<rparr>),
    (''Phase 2'', \<lparr>p_start = 2028, p_end = 2035, p_name = ''Convergence''\<rparr>),
    (''Phase 3'', \<lparr>p_start = 2035, p_end = 2045, p_name = ''Full Integration''\<rparr>)]"

text \<open>
  The body of the \<^verbatim>\<open>for phase, info in phases.items()\<close> loop. The division is reached
  only with \<open>start \<le> current_year < end\<close>, where the divisor is positive, so it cannot
  raise.
\<close>

definition phase_entry :: "int \<Rightarrow> string \<Rightarrow> phase_info \<Rightarrow> phase_result" where
  "phase_entry current_year ph info =
    (if current_year < p_start info then
       \<lparr>phase = ph, r_name = p_name info, r_start = p_start info, r_end = p_end info,
        progress = 0, status = ''Not Started''\<rparr>
     else if current_year \<ge> p_end info then
       \<lparr>phase = ph, r_name = p_name info, r_start = p_start info, r_end = p_end info,
        progress = 100, status = ''Complete''\<rparr>
     else
       \<lparr>phase = ph, r_name = p_name info, r_start = p_start info, r_end = p_end info,
        progress = (of_int (current_year - p_start info) / of_int (p_end info - p_start info)) * 100,
        status = ''In Progress''\<rparr>)"

definition phase_progress_of :: "(string \<times> phase_info) list \<Rightarrow> int \<Rightarrow> phase_result list" where
  "phase_progress_of phs current_year = map (\<lambda>(ph, info). phase_entry current_year ph info) phs"

definition get_phase_progress :: "int \<Rightarrow> phase_result list" where
  "get_phase_progress current_year = phase_progress_of phases current_year"

subsection \<open>get\_divergence\_metrics\<close>

text \<open>
  A Python float that may be \<^verbatim>\<open>float('inf')\<close>; the negative infinity and the NaN are
  needed by the float arithmetic further down.
\<close>

datatype pyfloat = Finite real | Infinity | NegInfinity | NaN

record divergence =
  timeline_spread :: int
  price_spread :: pyfloat
  max_price :: real
  min_price :: real

text \<open>Sequencing of computations that may raise.\<close>

definition and_then :: "error + 'a \<Rightarrow> ('a \<Rightarrow> error + 'b) \<Rightarrow> error + 'b" where
  "and_then r f = (case r of Inl e \<Rightarrow> Inl e | Inr v \<Rightarrow> f v)"

text \<open>
  The body of \<^verbatim>\<open>get_divergence_metrics\<close>, with the country table as an argument. The
  entries of the returned dictionary are evaluated in the order they are written;
  the conditional expression evaluates its condition \<^verbatim>\<open>min(prices) > 0\<close> first.
\<close>

definition divergence_metrics_of :: "(string \<times> country) list \<Rightarrow> error + divergence" where
  "divergence_metrics_of data =
    (let prices = map carbon_price_2024 (filter (\<lambda>d. carbon_price_2024 d > 0) (map snd data));
         years = map ets_launch_year (map snd data)
     in and_then (py_max years) (\<lambda>max_year.
        and_then (py_min years) (\<lambda>min_year.
        and_then (py_min prices) (\<lambda>cond_min.
        and_then (if cond_min > 0
                  then and_then (py_max prices) (\<lambda>mx.
                       and_then (py_min prices) (\<lambda>mn.
                       and_then (truediv mx mn) (\<lambda>q. Inr (Finite q))))
                  else Inr Infinity) (\<lambda>spread.
        and_then (py_max prices) (\<lambda>max_p.
        and_then (py_min (filter (\<lambda>p. p > 0) prices)) (\<lambda>min_p.
          Inr \<lparr>timeline_spread = max_year - min_year, price_spread = spread,
               max_price = max_p, min_price = min_p\<rparr>)))))))"

definition get_divergence_metrics :: "error + divergence" where
  "get_divergence_metrics = divergence_metrics_of COUNTRY_DATA"

subsection \<open>Python floats\<close>

text \<open>
  A Python float is an IEEE double. \<^verbatim>\<open>calculate_carbon_liability\<close> takes the price,
  the rate and the horizon as free parameters, so its arithmetic can leave the range
  of the doubles; it is modelled on \<open>pyfloat\<close> with the range kept and the rounding
  inside the range left out: a finite value is the exact real result, a result of
  magnitude at least \<open>2^1024 - 2^970\<close> overflows, and one of magnitude at most \<open>2^-1075\<close>
  becomes zero (the thresholds of round-to-nearest). The sign of a zero is not kept:
  it only shows in a division by zero, which raises. What the omitted rounding hides
  is stated with the theorems (two rates closer than the spacing of the doubles around
  1, such as 0 and \<open>10^-16\<close>, give the same float result).
\<close>

definition OVERFLOW_AT :: real where
  "OVERFLOW_AT = 2 ^ 1024 - 2 ^ 970"

definition ZERO_BELOW :: real where
  "ZERO_BELOW = 1 / 2 ^ 1075"

text \<open>The double for an exact result of \<^verbatim>\<open>+\<close>, \<^verbatim>\<open>*\<close> or \<^verbatim>\<open>/\<close>: these never raise on overflow.\<close>

definition fl :: "real \<Rightarrow> pyfloat" where
  "fl r = (if r \<ge> OVERFLOW_AT then Infinity
           else if r \<le> - OVERFLOW_AT then NegInfinity
           else if \<bar>r\<bar> \<le> ZERO_BELOW then Finite 0
           else Finite r)"

fun fadd :: "pyfloat \<Rightarrow> pyfloat \<Rightarrow> pyfloat" where
  "fadd (Finite a) (Finite b) = fl (a + b)"
| "fadd NaN y = NaN"
| "fadd x NaN = NaN"
| "fadd Infinity NegInfinity = NaN"
| "fadd NegInfinity Infinity = NaN"
| "fadd Infinity y = Infinity"
| "fadd NegInfinity y = NegInfinity"
| "fadd (Finite a) y = y"

fun fmul :: "pyfloat \<Rightarrow> pyfloat \<Rightarrow> pyfloat" where
  "fmul (Finite a) (Finite b) = fl (a * b)"
| "fmul NaN y = NaN"
| "fmul x NaN = NaN"
| "fmul (Finite a) Infinity = (if a = 0 then NaN else if a > 0 then Infinity else NegInfinity)"
| "fmul (Finite a) NegInfinity = (if a = 0 then NaN else if a > 0 then NegInfinity else Infinity)"
| "fmul Infinity (Finite b) = (if b = 0 then NaN else if b > 0 then Infinity else NegInfinity)"
| "fmul NegInfinity (Finite b) = (if b = 0 then NaN else if b > 0 then NegInfinity else Infinity)"
| "fmul Infinity Infinity = Infinity"
| "fmul Infinity NegInfinity = NegInfinity"
| "fmul NegInfinity Infinity = NegInfinity"
| "fmul NegInfinity NegInfinity = Infinity"

text \<open>\<^verbatim>\<open>x / y\<close> on floats raises ZeroDivisionError when \<^verbatim>\<open>y == 0.0\<close>, whatever \<^verbatim>\<open>x\<close> is.\<close>

fun fdiv :: "pyfloat \<Rightarrow> pyfloat \<Rightarrow> error + pyfloat" where
  "fdiv x (Finite b) =
     (if b = 0 then Inl ZeroDivisionError
      else case x of
             Finite a \<Rightarrow> Inr (fl (a / b))
           | Infinity \<Rightarrow> Inr (if b > 0 then Infinity else NegInfinity)
           | NegInfinity \<Rightarrow> Inr (if b > 0 then NegInfinity else Infinity)
           | NaN \<Rightarrow> Inr NaN)"
| "fdiv NaN y = Inr NaN"
| "fdiv x NaN = Inr NaN"
| "fdiv (Finite a) y = Inr (Finite 0)"
| "fdiv x y = Inr NaN"

text \<open>
  \<^verbatim>\<open>x ** n\<close> for a float \<^verbatim>\<open>x\<close> and an integer \<open>n \<ge> 0\<close>: \<^verbatim>\<open>x ** 0\<close> is 1.0 for every \<^verbatim>\<open>x\<close>;
  an overflowing finite power raises OverflowError, an underflowing one is 0.0.
\<close>

definition fpow :: "pyfloat \<Rightarrow> nat \<Rightarrow> error + pyfloat" where
  "fpow x n =
     (if n = 0 then Inr (Finite 1)
      else case x of
             Finite a \<Rightarrow>
               (let r = a ^ n
                in if \<bar>r\<bar> \<ge> OVERFLOW_AT then Inl OverflowError
                   else if \<bar>r\<bar> \<le> ZERO_BELOW then Inr (Finite 0)
                   else Inr (Finite r))
           | Infinity \<Rightarrow> Inr Infinity
           | NegInfinity \<Rightarrow> Inr (if odd n then NegInfinity else Infinity)
           | NaN \<Rightarrow> Inr NaN)"

text \<open>A proof device: a real that is zero or of magnitude between \<open>2^-k\<close> and \<open>2^k\<close>.\<close>

definition in_band :: "nat \<Rightarrow> real \<Rightarrow> bool" where
  "in_band k r \<longleftrightarrow> r = 0 \<or> (1 / 2 ^ k \<le> \<bar>r\<bar> \<and> \<bar>r\<bar> \<le> 2 ^ k)"

subsection \<open>calculate\_carbon\_liability\<close>

text \<open>
  The body of the \<^verbatim>\<open>for year in range(years)\<close> loop up to the division: the escalated
  price (the growth factor 1.03 is fixed), the annual cost, and the cost divided by
  \<^verbatim>\<open>(1 + discount_rate) ** year\<close>. The two powers can raise OverflowError and the
  division ZeroDivisionError, in the order of the source.
\<close>

definition discounted_cost :: "pyfloat \<Rightarrow> real \<Rightarrow> real \<Rightarrow> nat \<Rightarrow> error + pyfloat" where
  "discounted_cost annual_emissions carbon_price discount_rate year =
     and_then (fpow (Finite (103 / 100)) year) (\<lambda>growth.
       let price = fmul (Finite carbon_price) growth;
           annual_cost = fmul (fmul annual_emissions price) (Finite 1000000)
       in and_then (fpow (fadd (Finite 1) (Finite discount_rate)) year) (\<lambda>factor.
            fdiv annual_cost factor))"

text \<open>The loop, with \<^verbatim>\<open>npv\<close> as the accumulator.\<close>

fun npv_loop :: "pyfloat \<Rightarrow> real \<Rightarrow> real \<Rightarrow> nat list \<Rightarrow> pyfloat \<Rightarrow> error + pyfloat" where
  "npv_loop annual_emissions carbon_price discount_rate [] npv = Inr npv"
| "npv_loop annual_emissions carbon_price discount_rate (year # rest) npv =
     and_then (discounted_cost annual_emissions carbon_price discount_rate year) (\<lambda>discounted.
       npv_loop annual_emissions carbon_price discount_rate rest (fadd npv discounted))"

text \<open>
  \<^verbatim>\<open>annual_emissions\<close> (million tonnes) from the capacity:
  \<^verbatim>\<open>capacity_kbpd * 1000 * emissions_intensity * 365 / 1_000_000\<close>. The first product is
  one of integers.
\<close>

definition annual_emissions_mt_of :: "country \<Rightarrow> error + pyfloat" where
  "annual_emissions_mt_of data =
     (let emissions_intensity = Finite (14 / 100);
          daily_emissions = fmul (Finite (capacity_kbpd data * 1000)) emissions_intensity
      in fdiv (fmul daily_emissions (Finite 365)) (Finite 1000000))"

text \<open>
  The body of \<^verbatim>\<open>calculate_carbon_liability\<close>, with the country table as an argument.
  The price and the rate are finite floats; \<^verbatim>\<open>range(years)\<close> is empty for \<open>years \<le> 0\<close>.
  The result is in billions of dollars.
\<close>

definition liability_of ::
  "(string \<times> country) list \<Rightarrow> string \<Rightarrow> real \<Rightarrow> int \<Rightarrow> real \<Rightarrow> error + pyfloat" where
  "liability_of table cname carbon_price years discount_rate =
    and_then (getitem table cname) (\<lambda>data.
    and_then (annual_emissions_mt_of data) (\<lambda>annual_emissions.
    and_then (npv_loop annual_emissions carbon_price discount_rate [0..<nat years] (Finite 0))
      (\<lambda>npv. fdiv npv (Finite 1000000000))))"

definition calculate_carbon_liability :: "string \<Rightarrow> real \<Rightarrow> int \<Rightarrow> real \<Rightarrow> error + pyfloat" where
  "calculate_carbon_liability = liability_of COUNTRY_DATA"


subsection \<open>The NPV loop of the liability calculator tab\<close>

text \<open>
  In \<^verbatim>\<open>main\<close>, the tab "Carbon Liability Calculator" computes the liability of the
  selected country inline, from the widgets' values: \<^verbatim>\<open>base_carbon_price\<close> (0 to 200),
  \<^verbatim>\<open>price_escalation\<close> (a percentage, 0 to 10), \<^verbatim>\<open>coverage\<close> (a percentage, 0 to 100),
  \<^verbatim>\<open>analysis_years\<close> (10 to 30) and \<^verbatim>\<open>discount_rate\<close> (0.03 to 0.10). These inputs are
  bounded, so the floats are read as exact reals here. One element of \<^verbatim>\<open>yearly_data\<close>:
\<close>

record yearly =
  Year :: int
  Carbon_Price :: real
  Annual_Cost_M :: real
  Discounted_Cost_M :: real

fun tab2_loop ::
  "real \<Rightarrow> real \<Rightarrow> real \<Rightarrow> real \<Rightarrow> real \<Rightarrow> nat list \<Rightarrow> real \<Rightarrow> yearly list
     \<Rightarrow> error + real \<times> yearly list" where
  "tab2_loop annual_emissions_mt base_carbon_price price_escalation coverage discount_rate
      [] npv_liability yearly_data = Inr (npv_liability, yearly_data)"
| "tab2_loop annual_emissions_mt base_carbon_price price_escalation coverage discount_rate
      (year # rest) npv_liability yearly_data =
    (let price = base_carbon_price * ((1 + price_escalation / 100) ^ year);
         covered_emissions = annual_emissions_mt * (coverage / 100);
         annual_cost = covered_emissions * price * 1000000
     in and_then (truediv annual_cost ((1 + discount_rate) ^ year)) (\<lambda>discounted_cost.
          tab2_loop annual_emissions_mt base_carbon_price price_escalation coverage discount_rate
            rest (npv_liability + discounted_cost)
            (yearly_data @
              [\<lparr>Year = 2025 + int year, Carbon_Price = price,
                Annual_Cost_M = annual_cost / 1000000,
                Discounted_Cost_M = discounted_cost / 1000000\<rparr>])))"

record tab2_result =
  npv_liability_b :: real
  tab2_govt_exposure_b :: real
  yearly_data :: "yearly list"

definition tab2_liability ::
  "country \<Rightarrow> real \<Rightarrow> real \<Rightarrow> real \<Rightarrow> int \<Rightarrow> real \<Rightarrow> error + tab2_result" where
  "tab2_liability country_data base_carbon_price price_escalation coverage analysis_years
      discount_rate =
    (let emissions_intensity = 14 / 100;
         daily_emissions = capacity_kbpd country_data * 1000 * emissions_intensity;
         annual_emissions_mt = daily_emissions * 365 / 1000000
     in and_then (tab2_loop annual_emissions_mt base_carbon_price price_escalation coverage
                    discount_rate [0..<nat analysis_years] 0 [])
          (\<lambda>(npv_liability, yd).
             let npv_b = npv_liability / 1000000000
             in Inr \<lparr>npv_liability_b = npv_b,
                     tab2_govt_exposure_b = npv_b * govt_ownership country_data,
                     yearly_data = yd\<rparr>))"

subsection \<open>simulate\_price\_convergence\<close>

text \<open>The inner dictionaries of \<^verbatim>\<open>trajectories\<close>, keyed \<^verbatim>\<open>'2024'\<close>, \<^verbatim>\<open>'2030'\<close>, \<^verbatim>\<open>'2045'\<close>.\<close>

record anchors =
  p2024 :: real
  p2030 :: real
  p2045 :: real

definition trajectories :: "(string \<times> anchors) list" where
  "trajectories =
   [(''Singapore'', \<lparr>p2024 = 59, p2030 = 75, p2045 = 95\<rparr>),
    (''Thailand'', \<lparr>p2024 = 35, p2030 = 50, p2045 = 85\<rparr>),
    (''Indonesia'', \<lparr>p2024 = 25, p2030 = 35, p2045 = 75\<rparr>),
    (''Malaysia'', \<lparr>p2024 = 0, p2030 = 15, p2045 = 70\<rparr>),
    (''Vietnam'', \<lparr>p2024 = 20, p2030 = 40, p2045 = 80\<rparr>)]"

text \<open>
  The \<^verbatim>\<open>if scenario == 'accelerated' ... elif scenario == 'delayed'\<close> block: each
  country's 2030 and 2045 entries are multiplied in place, once; any other scenario
  name leaves the table as it is.
\<close>

definition scenario_trajectories :: "string \<Rightarrow> (string \<times> anchors) list" where
  "scenario_trajectories scenario =
    (if scenario = ''accelerated'' then
       map (\<lambda>(cname, prices).
              (cname, prices\<lparr>p2030 := p2030 prices * (12 / 10), p2045 := p2045 prices * (11 / 10)\<rparr>))
           trajectories
     else if scenario = ''delayed'' then
       map (\<lambda>(cname, prices).
              (cname, prices\<lparr>p2030 := p2030 prices * (8 / 10), p2045 := p2045 prices * (9 / 10)\<rparr>))
           trajectories
     else trajectories)"

text \<open>The \<^verbatim>\<open>if year <= 2024 ... elif ... else\<close> chain that fills \<^verbatim>\<open>row[country]\<close>.\<close>

definition country_price :: "int \<Rightarrow> anchors \<Rightarrow> real" where
  "country_price year prices =
    (if year \<le> 2024 then p2024 prices
     else if year \<le> 2030 then
       (let progress = of_int (year - 2024) / 6
        in p2024 prices + (p2030 prices - p2024 prices) * progress)
     else if year \<le> 2045 then
       (let progress = of_int (year - 2030) / 15
        in p2030 prices + (p2045 prices - p2030 prices) * progress)
     else p2045 prices)"

text \<open>
  A row is a dictionary in insertion order: \<^verbatim>\<open>'year'\<close>, then one key per country,
  then \<^verbatim>\<open>'spread'\<close>. The country names are distinct and none is \<^verbatim>\<open>'year'\<close>, so no
  assignment overwrites an earlier key.
\<close>

type_synonym row = "(string \<times> real) list"

definition price_row :: "(string \<times> anchors) list \<Rightarrow> int \<Rightarrow> row" where
  "price_row trs year =
     (''year'', of_int year) # map (\<lambda>(cname, prices). (cname, country_price year prices)) trs"

definition active_prices :: "row \<Rightarrow> real list" where
  "active_prices r = map snd (filter (\<lambda>(k, v). k \<noteq> ''year'' \<and> v > 0) r)"

text \<open>
  \<^verbatim>\<open>row['spread'] = max(active_prices) / min(active_prices) if min(active_prices) > 0 else 0\<close>:
  the condition is evaluated first.
\<close>

definition add_spread :: "row \<Rightarrow> error + row" where
  "add_spread r =
    (let ap = active_prices r
     in and_then (py_min ap) (\<lambda>cond_min.
        and_then (if cond_min > 0
                  then and_then (py_max ap) (\<lambda>mx.
                       and_then (py_min ap) (\<lambda>mn. truediv mx mn))
                  else Inr 0) (\<lambda>spread.
          Inr (r @ [(''spread'', spread)]))))"

text \<open>The \<^verbatim>\<open>for year in years\<close> loop, with \<^verbatim>\<open>results\<close> as the accumulator.\<close>

fun simulate_rows :: "(string \<times> anchors) list \<Rightarrow> int list \<Rightarrow> row list \<Rightarrow> error + row list" where
  "simulate_rows trs [] results = Inr results"
| "simulate_rows trs (year # rest) results =
     and_then (add_spread (price_row trs year)) (\<lambda>r. simulate_rows trs rest (results @ [r]))"

definition simulate_price_convergence :: "string \<Rightarrow> error + row list" where
  "simulate_price_convergence scenario =
     simulate_rows (scenario_trajectories scenario) [2024..2050] []"

subsection \<open>The formulas of the specification\<close>

text \<open>
  The liability formula as the specification words it: the sum over the year indices
  \<open>t < h\<close> of covered emissions times the escalated price, discounted after escalation.
\<close>

definition spec_npv :: "real \<Rightarrow> real \<Rightarrow> real \<Rightarrow> real \<Rightarrow> real \<Rightarrow> nat \<Rightarrow> real" where
  "spec_npv annual_emissions basePrice e c d h =
     (\<Sum>t<h. (annual_emissions * c * (basePrice * (1 + e) ^ t)) / (1 + d) ^ t)"

text \<open>Annual emissions in tonnes, from the capacity in thousand barrels per day: intensity
  (tonnes per barrel) times barrels per day times 365 days.\<close>

definition annual_emissions_t :: "real \<Rightarrow> real" where
  "annual_emissions_t capacity = (14 / 100) * (capacity * 1000) * 365"

text \<open>
  The price path as the specification words it, for anchors \<open>(startYear, startPrice)\<close>,
  \<open>(midYear, midPrice)\<close>, \<open>(endYear, endPrice)\<close>.
\<close>

definition spec_price_path ::
  "int \<Rightarrow> real \<Rightarrow> int \<Rightarrow> real \<Rightarrow> int \<Rightarrow> real \<Rightarrow> int \<Rightarrow> real" where
  "spec_price_path startYear startPrice midYear midPrice endYear endPrice Y =
    (if Y \<le> startYear then startPrice
     else if Y \<le> midYear then
       startPrice + (midPrice - startPrice) * of_int (Y - startYear) / of_int (midYear - startYear)
     else if Y \<le> endYear then
       midPrice + (endPrice - midPrice) * of_int (Y - midYear) / of_int (endYear - midYear)
     else endPrice)"

section \<open>Theorems\<close>

subsection \<open>Return on the integration investment\<close>

text \<open>
  C9. \<^verbatim>\<open>calculate_integration_roi\<close> returns total investment 85 + 45 + 35 + 40 + 24 = 229,
  total benefits (18 + 50) * 10 + 200 = 880 (no compounding, no discounting), benefit-cost
  ratio 880 / 229 and payback 229 / 68 years; the ratio rounds to 3.84 and the payback to
  3.37.
\<close>

theorem roi_values:
  "calculate_integration_roi =
     Inr \<lparr>total_investment = 85 + 45 + 35 + 40 + 24, total_benefits = (18 + 50) * 10 + 200,
          benefit_cost_ratio = 880 / 229, annual_savings = 68, payback_years = 229 / 68\<rparr>
   \<and> (85 + 45 + 35 + 40 + 24 = (229::int)) \<and> ((18 + 50) * 10 + 200 = (880::int))
   \<and> \<bar>880 / 229 - 384 / 100\<bar> < (5 / 1000 :: real)
   \<and> \<bar>229 / 68 - 337 / 100\<bar> < (5 / 1000 :: real)"
  by (simp add: calculate_integration_roi_def integration_roi_of_def
      INVESTMENT_REQUIREMENTS_def truediv_def Let_def)

subsection \<open>Basic facts about the built-ins\<close>

lemma and_then_Inr [simp]: "and_then (Inr v) f = f v"
  by (simp add: and_then_def)

lemma and_then_Inl [simp]: "and_then (Inl e) f = Inl e"
  by (simp add: and_then_def)

lemma truediv_Inr: "b \<noteq> 0 \<Longrightarrow> truediv a b = Inr (a / b)"
  by (simp add: truediv_def)

lemma getitem_Some: "map_of d k = Some v \<Longrightarrow> getitem d k = Inr v"
  by (simp add: getitem_def)

lemma getitem_None: "map_of d k = None \<Longrightarrow> getitem d k = Inl KeyError"
  by (simp add: getitem_def)

lemma py_min_Min: "xs \<noteq> [] \<Longrightarrow> py_min xs = Inr (Min (set xs))"
  by (cases xs) (simp_all add: Min.set_eq_fold [symmetric])

lemma py_max_Max: "xs \<noteq> [] \<Longrightarrow> py_max xs = Inr (Max (set xs))"
  by (cases xs) (simp_all add: Max.set_eq_fold [symmetric])

lemma thresholds: "0 < ZERO_BELOW" "0 < OVERFLOW_AT" "ZERO_BELOW < 1 / 2 ^ 1000" "2 ^ 1000 < OVERFLOW_AT"
  by (simp_all add: ZERO_BELOW_def OVERFLOW_AT_def)


subsection \<open>Floats: results inside the range\<close>

lemma in_bandI: "1 / 2 ^ k \<le> \<bar>r\<bar> \<Longrightarrow> \<bar>r\<bar> \<le> 2 ^ k \<Longrightarrow> in_band k r"
  by (simp add: in_band_def)

lemma in_band_0 [simp]: "in_band k 0"
  by (simp add: in_band_def)

lemma in_band_mono:
  assumes "in_band j r" "j \<le> k"
  shows "in_band k r"
proof -
  have le: "(2::real) ^ j \<le> 2 ^ k" using assms(2) by (intro power_increasing) auto
  then have "(1::real) / 2 ^ k \<le> 1 / 2 ^ j" by (intro divide_left_mono) auto
  then show ?thesis using assms(1) le unfolding in_band_def by linarith
qed

lemma in_band_mult:
  assumes "in_band j a" "in_band k b"
  shows "in_band (j + k) (a * b)"
proof (cases "a = 0 \<or> b = 0")
  case True
  then show ?thesis by auto
next
  case False
  then have a: "1 / 2 ^ j \<le> \<bar>a\<bar>" "\<bar>a\<bar> \<le> 2 ^ j" and b: "1 / 2 ^ k \<le> \<bar>b\<bar>" "\<bar>b\<bar> \<le> 2 ^ k"
    using assms by (auto simp: in_band_def)
  have "(1 / 2 ^ j) * (1 / 2 ^ k) \<le> \<bar>a\<bar> * \<bar>b\<bar>"
    using a(1) b(1) by (intro mult_mono) auto
  moreover have "\<bar>a\<bar> * \<bar>b\<bar> \<le> 2 ^ j * 2 ^ k"
    using a(2) b(2) by (intro mult_mono) auto
  ultimately show ?thesis by (simp add: in_band_def abs_mult power_add)
qed

lemma in_band_inverse:
  assumes "in_band k b" "b \<noteq> 0"
  shows "in_band k (1 / b)"
proof -
  have b: "1 / 2 ^ k \<le> \<bar>b\<bar>" "\<bar>b\<bar> \<le> 2 ^ k" using assms by (auto simp: in_band_def)
  have "(0::real) < 1 / 2 ^ k" by simp
  then have pos: "0 < \<bar>b\<bar>" using b(1) by linarith
  have "1 / 2 ^ k \<le> 1 / \<bar>b\<bar>" using b(2) pos by (intro divide_left_mono) auto
  moreover have "1 \<le> \<bar>b\<bar> * 2 ^ k" using b(1) by (simp add: field_simps)
  then have "1 / \<bar>b\<bar> \<le> 2 ^ k" using pos by (simp add: field_simps)
  ultimately show ?thesis by (simp add: in_band_def abs_divide)
qed

lemma in_band_divide:
  assumes "in_band j a" "in_band k b" "b \<noteq> 0"
  shows "in_band (j + k) (a / b)"
  using in_band_mult [OF assms(1) in_band_inverse [OF assms(2,3)]] by simp

lemma in_band_power:
  assumes "in_band j a" "a \<noteq> 0"
  shows "in_band (j * n) (a ^ n)"
proof -
  have a: "1 / 2 ^ j \<le> \<bar>a\<bar>" "\<bar>a\<bar> \<le> 2 ^ j" using assms by (auto simp: in_band_def)
  have "(1 / 2 ^ j) ^ n \<le> \<bar>a\<bar> ^ n" using a(1) by (intro power_mono) auto
  moreover have "\<bar>a\<bar> ^ n \<le> (2 ^ j) ^ n" using a(2) by (intro power_mono) auto
  ultimately show ?thesis by (simp add: in_band_def power_abs power_mult power_divide)
qed

lemma fl_in_band:
  assumes "in_band k r" "k \<le> 1000"
  shows "fl r = Finite r"
proof (cases "r = 0")
  case True
  then show ?thesis using thresholds by (simp add: fl_def)
next
  case False
  then have r: "1 / 2 ^ k \<le> \<bar>r\<bar>" "\<bar>r\<bar> \<le> 2 ^ k" using assms(1) by (auto simp: in_band_def)
  have le: "(2::real) ^ k \<le> 2 ^ 1000" using assms(2) by (intro power_increasing) auto
  then have up: "\<bar>r\<bar> < OVERFLOW_AT" using r(2) thresholds(4) by linarith
  have "(1::real) / 2 ^ 1000 \<le> 1 / 2 ^ k"
    using le by (intro divide_left_mono) auto
  then have lo: "ZERO_BELOW < \<bar>r\<bar>" using r(1) thresholds(3) by linarith
  show ?thesis using up lo by (auto simp: fl_def)
qed

lemma fmul_in_band:
  "in_band k (a * b) \<Longrightarrow> k \<le> 1000 \<Longrightarrow> fmul (Finite a) (Finite b) = Finite (a * b)"
  by (simp add: fl_in_band)

lemma fadd_in_band:
  "in_band k (a + b) \<Longrightarrow> k \<le> 1000 \<Longrightarrow> fadd (Finite a) (Finite b) = Finite (a + b)"
  by (simp add: fl_in_band)

lemma fdiv_in_band:
  "b \<noteq> 0 \<Longrightarrow> in_band k (a / b) \<Longrightarrow> k \<le> 1000 \<Longrightarrow>
   fdiv (Finite a) (Finite b) = Inr (Finite (a / b))"
  by (simp add: fl_in_band)

lemma fpow_in_band:
  assumes "in_band k (a ^ n)" "a \<noteq> 0" "k \<le> 1000"
  shows "fpow (Finite a) n = Inr (Finite (a ^ n))"
proof (cases "n = 0")
  case True
  then show ?thesis by (simp add: fpow_def)
next
  case False
  have r: "1 / 2 ^ k \<le> \<bar>a ^ n\<bar>" "\<bar>a ^ n\<bar> \<le> 2 ^ k"
    using assms(1,2) by (auto simp: in_band_def)
  have le: "(2::real) ^ k \<le> 2 ^ 1000" using assms(3) by (intro power_increasing) auto
  then have up: "\<bar>a ^ n\<bar> < OVERFLOW_AT" using r(2) thresholds(4) by linarith
  have "(1::real) / 2 ^ 1000 \<le> 1 / 2 ^ k"
    using le by (intro divide_left_mono) auto
  then have lo: "ZERO_BELOW < \<bar>a ^ n\<bar>" using r(1) thresholds(3) by linarith
  show ?thesis using False up lo by (simp add: fpow_def Let_def)
qed

lemma fdiv_const_total: "b \<noteq> 0 \<Longrightarrow> \<exists>v. fdiv x (Finite b) = Inr v"
  by (cases x) simp_all


subsection \<open>Carbon liability: one year of the loop\<close>

lemma discounted_cost_closed:
  assumes ae: "in_band 20 ae" and p: "in_band 10 p"
    and d: "1 / 2 \<le> 1 + d" "1 + d \<le> 2" and t: "t \<le> 100"
  shows "discounted_cost (Finite ae) p d t
           = Inr (Finite (ae * (p * (103 / 100) ^ t) * 1000000 / (1 + d) ^ t))"
    and "in_band 250 (ae * (p * (103 / 100) ^ t) * 1000000 / (1 + d) ^ t)"
proof -
  have g1: "in_band 1 (103 / 100 :: real)" by (simp add: in_band_def)
  have "in_band (1 * t) ((103 / 100 :: real) ^ t)"
    by (rule in_band_power [OF g1]) simp
  then have g: "in_band 100 ((103 / 100 :: real) ^ t)"
    by (rule in_band_mono) (use t in simp)
  have pg: "in_band 110 (p * (103 / 100) ^ t)"
    using in_band_mult [OF p g] by simp
  have apg: "in_band 130 (ae * (p * (103 / 100) ^ t))"
    using in_band_mult [OF ae pg] by simp
  have m: "in_band 20 (1000000 :: real)" by (simp add: in_band_def)
  have cost: "in_band 150 (ae * (p * (103 / 100) ^ t) * 1000000)"
    using in_band_mult [OF apg m] by simp
  have b1: "in_band 1 (1 + d)" using d by (simp add: in_band_def)
  have bne: "1 + d \<noteq> 0" using d by auto
  have "in_band (1 * t) ((1 + d) ^ t)"
    by (rule in_band_power [OF b1 bne])
  then have f: "in_band 100 ((1 + d) ^ t)"
    by (rule in_band_mono) (use t in simp)
  have fne: "(1 + d) ^ t \<noteq> 0" using bne by simp
  show q: "in_band 250 (ae * (p * (103 / 100) ^ t) * 1000000 / (1 + d) ^ t)"
    using in_band_divide [OF cost f fne] by simp
  have e1: "fpow (Finite (103 / 100)) t = Inr (Finite ((103 / 100) ^ t))"
    by (rule fpow_in_band [OF g]) simp_all
  have e2: "fmul (Finite p) (Finite ((103 / 100) ^ t)) = Finite (p * (103 / 100) ^ t)"
    by (rule fmul_in_band [OF pg]) simp
  have e3: "fmul (Finite ae) (Finite (p * (103 / 100) ^ t))
      = Finite (ae * (p * (103 / 100) ^ t))"
    by (rule fmul_in_band [OF apg]) simp
  have e4: "fmul (Finite (ae * (p * (103 / 100) ^ t))) (Finite 1000000)
      = Finite (ae * (p * (103 / 100) ^ t) * 1000000)"
    by (rule fmul_in_band [OF cost]) simp
  have e5: "fadd (Finite 1) (Finite d) = Finite (1 + d)"
    by (rule fadd_in_band [OF b1]) simp
  have e6: "fpow (Finite (1 + d)) t = Inr (Finite ((1 + d) ^ t))"
    by (rule fpow_in_band [OF f bne]) simp
  have e7: "fdiv (Finite (ae * (p * (103 / 100) ^ t) * 1000000)) (Finite ((1 + d) ^ t))
      = Inr (Finite (ae * (p * (103 / 100) ^ t) * 1000000 / (1 + d) ^ t))"
    by (rule fdiv_in_band [OF fne q]) simp
  show "discounted_cost (Finite ae) p d t
           = Inr (Finite (ae * (p * (103 / 100) ^ t) * 1000000 / (1 + d) ^ t))"
    unfolding discounted_cost_def Let_def
    by (simp only: e1 e2 e3 e4 e5 e6 e7 and_then_Inr)
qed


subsection \<open>Carbon liability: the loop\<close>

lemma band_of_sum:
  assumes "0 \<le> x" "x = 0 \<or> 1 / 2 ^ K \<le> x" "x \<le> 2 ^ K * real M" "M \<le> 128"
  shows "in_band (K + 7) x"
proof (cases "x = 0")
  case True
  then show ?thesis by simp
next
  case False
  have "real M \<le> 128" using assms(4) by simp
  then have "2 ^ K * real M \<le> 2 ^ K * 128" by (intro mult_left_mono) auto
  then have "x \<le> 2 ^ K * 128" using assms(3) by linarith
  then have up: "x \<le> 2 ^ (K + 7)" by (simp add: power_add)
  have "(1::real) / 2 ^ (K + 7) \<le> 1 / 2 ^ K"
    by (intro divide_left_mono power_increasing) auto
  then have "1 / 2 ^ (K + 7) \<le> x" using assms(2) False by linarith
  then show ?thesis using up assms(1) by (simp add: in_band_def)
qed

lemma npv_loop_closed:
  assumes step: "\<forall>t\<in>set ys. discounted_cost aef p d t = Inr (Finite (f t)) \<and> 0 \<le> f t
              \<and> in_band K (f t)"
    and acc: "0 \<le> acc" "acc = 0 \<or> 1 / 2 ^ K \<le> acc" "acc \<le> 2 ^ K * real M"
    and len: "M + length ys \<le> 128" and K: "K + 7 \<le> 1000"
  shows "npv_loop aef p d ys (Finite acc) = Inr (Finite (acc + sum_list (map f ys)))
         \<and> in_band (K + 7) (acc + sum_list (map f ys))"
  using step acc len
proof (induction ys arbitrary: acc M)
  case Nil
  have "in_band (K + 7) acc"
    using Nil.prems(2,3,4,5) by (intro band_of_sum [where M = M]) auto
  then show ?case by simp
next
  case (Cons t ys)
  have ft: "discounted_cost aef p d t = Inr (Finite (f t))" "0 \<le> f t" "in_band K (f t)"
    using Cons.prems(1) by auto
  have fup: "f t \<le> 2 ^ K" using ft(2,3) by (auto simp: in_band_def)
  have flo: "f t = 0 \<or> 1 / 2 ^ K \<le> f t" using ft(2,3) by (auto simp: in_band_def)
  let ?acc = "acc + f t"
  have a1: "0 \<le> ?acc" using Cons.prems(2) ft(2) by simp
  have a2: "?acc = 0 \<or> 1 / 2 ^ K \<le> ?acc"
    using Cons.prems(2,3) ft(2) flo by linarith
  have "?acc \<le> 2 ^ K * real M + 2 ^ K" using Cons.prems(4) fup by linarith
  then have a3: "?acc \<le> 2 ^ K * real (Suc M)" by (simp add: algebra_simps)
  have a4: "Suc M + length ys \<le> 128" using Cons.prems(5) by simp
  have "in_band (K + 7) ?acc"
    using a1 a2 a3 a4 by (intro band_of_sum [where M = "Suc M"]) auto
  then have add: "fadd (Finite acc) (Finite (f t)) = Finite ?acc"
    using K by (intro fadd_in_band) auto
  have rest: "\<forall>t\<in>set ys. discounted_cost aef p d t = Inr (Finite (f t)) \<and> 0 \<le> f t
              \<and> in_band K (f t)"
    using Cons.prems(1) by simp
  note ih = Cons.IH [OF rest a1 a2 a3 a4]
  show ?case
    using ih by (simp only: npv_loop.simps ft(1) and_then_Inr add list.map sum_list.Cons
        add.assoc)
qed

subsection \<open>Carbon liability: the function in closed form\<close>

lemma annual_emissions_closed:
  assumes "1 \<le> capacity_kbpd data" "capacity_kbpd data \<le> 100000"
  shows "annual_emissions_mt_of data
           = Inr (Finite (capacity_kbpd data * 1000 * (14 / 100) * 365 / 1000000))"
    and "in_band 20 (capacity_kbpd data * 1000 * (14 / 100) * 365 / 1000000)"
    and "0 \<le> capacity_kbpd data * 1000 * (14 / 100) * 365 / 1000000"
proof -
  let ?c = "capacity_kbpd data"
  have b1: "in_band 24 (?c * 1000 * (14 / 100))"
    using assms by (intro in_bandI) auto
  have b2: "in_band 33 (?c * 1000 * (14 / 100) * 365)"
    using assms by (intro in_bandI) auto
  have b3: "in_band 13 (?c * 1000 * (14 / 100) * 365 / 1000000)"
    using assms by (intro in_bandI) auto
  show "in_band 20 (?c * 1000 * (14 / 100) * 365 / 1000000)"
    using b3 by (rule in_band_mono) simp
  show "0 \<le> ?c * 1000 * (14 / 100) * 365 / 1000000" using assms by simp
  have e1: "fmul (Finite (?c * 1000)) (Finite (14 / 100)) = Finite (?c * 1000 * (14 / 100))"
    by (rule fmul_in_band [OF b1]) simp
  have e2: "fmul (Finite (?c * 1000 * (14 / 100))) (Finite 365)
      = Finite (?c * 1000 * (14 / 100) * 365)"
    by (rule fmul_in_band [OF b2]) simp
  have e3: "fdiv (Finite (?c * 1000 * (14 / 100) * 365)) (Finite 1000000)
      = Inr (Finite (?c * 1000 * (14 / 100) * 365 / 1000000))"
    by (rule fdiv_in_band [OF _ b3]) simp_all
  show "annual_emissions_mt_of data = Inr (Finite (?c * 1000 * (14 / 100) * 365 / 1000000))"
    unfolding annual_emissions_mt_of_def Let_def by (simp only: e1 e2 e3)
qed

lemma liability_of_closed:
  assumes tab: "map_of table cname = Some data"
    and cap: "1 \<le> capacity_kbpd data" "capacity_kbpd data \<le> 100000"
    and p: "p = 0 \<or> (1 / 1000 \<le> p \<and> p \<le> 1000)"
    and d: "- 1 / 2 \<le> d" "d \<le> 1" and h: "years \<le> 100"
  shows "liability_of table cname p years d
     = Inr (Finite (spec_npv (annual_emissions_t (capacity_kbpd data)) p (3 / 100) 1 d (nat years)
                    / 1000000000))"
proof -
  let ?ae = "capacity_kbpd data * 1000 * (14 / 100) * 365 / 1000000"
  let ?f = "\<lambda>t. ?ae * (p * (103 / 100) ^ t) * 1000000 / (1 + d) ^ t"
  let ?ys = "[0..<nat years]"
  note ae = annual_emissions_closed [OF cap]
  have pb: "in_band 10 p" using p by (auto simp: in_band_def)
  have p0: "0 \<le> p" using p by auto
  have d1: "1 / 2 \<le> 1 + d" "1 + d \<le> 2" using d by auto
  have step: "\<forall>t\<in>set ?ys. discounted_cost (Finite ?ae) p d t = Inr (Finite (?f t)) \<and> 0 \<le> ?f t
              \<and> in_band 250 (?f t)"
  proof
    fix t assume "t \<in> set ?ys"
    then have t: "t \<le> 100" using h by auto
    have "0 \<le> ?f t" using ae(3) p0 d1 by (intro divide_nonneg_nonneg mult_nonneg_nonneg) auto
    then show "discounted_cost (Finite ?ae) p d t = Inr (Finite (?f t)) \<and> 0 \<le> ?f t
              \<and> in_band 250 (?f t)"
      using discounted_cost_closed [OF ae(2) pb d1 t] by simp
  qed
  have len: "0 + length ?ys \<le> 128" using h by simp
  have loop: "npv_loop (Finite ?ae) p d ?ys (Finite 0) = Inr (Finite (0 + sum_list (map ?f ?ys)))
         \<and> in_band (250 + 7) (0 + sum_list (map ?f ?ys))"
    by (rule npv_loop_closed [OF step _ _ _ len]) simp_all
  have b9: "in_band 30 (1000000000 :: real)" by (intro in_bandI) auto
  have "in_band (250 + 7 + 30) ((0 + sum_list (map ?f ?ys)) / 1000000000)"
    using loop by (intro in_band_divide [OF _ b9]) auto
  then have fin: "fdiv (Finite (0 + sum_list (map ?f ?ys))) (Finite 1000000000)
      = Inr (Finite ((0 + sum_list (map ?f ?ys)) / 1000000000))"
    by (intro fdiv_in_band) auto
  have sum: "0 + sum_list (map ?f ?ys)
      = spec_npv (annual_emissions_t (capacity_kbpd data)) p (3 / 100) 1 d (nat years)"
    unfolding spec_npv_def annual_emissions_t_def interv_sum_list_conv_sum_set_nat
    by (simp add: atLeast0LessThan) (rule sum.cong, auto)
  note fin' = fin [unfolded sum]
  note loop' = conjunct1 [OF loop, unfolded sum]
  show ?thesis
    unfolding liability_of_def
    by (simp only: getitem_Some [OF tab] and_then_Inr ae(1) loop' fin')
qed

lemma singapore_entry:
  "map_of COUNTRY_DATA ''Singapore'' =
     Some \<lparr>refineries = 3, capacity_kbpd = 1512, govt_ownership = 13 / 100,
       carbon_price_2024 = 59, carbon_price_2030 = 75, ets_status = ''Operational'',
       ets_launch_year = 2019, coverage_pct = 80, total_liability_b = 52 / 10,
       govt_exposure_b = 9 / 10, avg_refinery_age = 45\<rparr>"
  by (simp add: COUNTRY_DATA_def)

lemma capacity_bounds:
  "map_of COUNTRY_DATA cname = Some data \<Longrightarrow>
   1 \<le> capacity_kbpd data \<and> capacity_kbpd data \<le> 100000"
  by (auto simp: COUNTRY_DATA_def split: if_splits)

lemma discounted_cost_year_0:
  "discounted_cost ae p d 0
     = fdiv (fmul (fmul ae (fmul (Finite p) (Finite 1))) (Finite 1000000)) (Finite 1)"
  by (simp add: discounted_cost_def fpow_def Let_def)

lemma discounted_cost_year_0_total: "\<exists>v. discounted_cost ae p d 0 = Inr v"
  unfolding discounted_cost_year_0 by (rule fdiv_const_total) simp

lemma discounted_cost_rate_minus_1:
  "discounted_cost ae p (- 1) (Suc 0) = Inl ZeroDivisionError"
proof -
  have g: "fpow (Finite (103 / 100)) (Suc 0) = Inr (Finite (103 / 100))"
    using fpow_in_band [of 1 "103 / 100" "Suc 0"] by (simp add: in_band_def)
  have z: "fadd (Finite 1) (Finite (- 1)) = Finite 0"
    using fadd_in_band [of 0 1 "- 1"] by simp
  have f: "fpow (Finite 0) (Suc 0) = Inr (Finite 0)"
    using thresholds by (simp add: fpow_def)
  show ?thesis
    unfolding discounted_cost_def Let_def
    by (simp only: g z f and_then_Inr) simp
qed

text \<open>
  Outside these ranges the function does not return the sum. Two examples, which the
  model shares with the program: at the rate \<open>10^200\<close> the power \<^verbatim>\<open>(1 + d) ** 2\<close> overflows
  and raises OverflowError; at the rate \<open>-(1 - 2^-53)\<close>, the float just above \<open>-1\<close>, the
  power \<^verbatim>\<open>(1 + d) ** 21\<close> underflows to zero and the division raises.
\<close>

lemma liability_overflow_example:
  "calculate_carbon_liability ''Singapore'' 59 3 (10 ^ 200) = Inl OverflowError"
  by (simp add: calculate_carbon_liability_def liability_of_def getitem_def COUNTRY_DATA_def
      annual_emissions_mt_of_def discounted_cost_def fpow_def fl_def OVERFLOW_AT_def
      ZERO_BELOW_def Let_def upt_rec)

lemma discounted_cost_total:
  assumes "t \<le> 100" "ZERO_BELOW < \<bar>(1 + d) ^ t\<bar>" "\<bar>(1 + d) ^ t\<bar> < OVERFLOW_AT"
    and "fadd (Finite 1) (Finite d) = Finite (1 + d)"
  shows "\<exists>v. discounted_cost ae p d t = Inr v"
proof -
  have g1: "in_band 1 (103 / 100 :: real)" by (simp add: in_band_def)
  have "in_band (1 * t) ((103 / 100 :: real) ^ t)"
    by (rule in_band_power [OF g1]) simp
  then have g: "in_band 100 ((103 / 100 :: real) ^ t)"
    by (rule in_band_mono) (use assms(1) in simp)
  have e1: "fpow (Finite (103 / 100)) t = Inr (Finite ((103 / 100) ^ t))"
    by (rule fpow_in_band [OF g]) simp_all
  have "0 < \<bar>(1 + d) ^ t\<bar>" using assms(2) thresholds(1) by linarith
  then have ne: "(1 + d) ^ t \<noteq> 0" by simp
  have e2: "fpow (Finite (1 + d)) t = Inr (Finite ((1 + d) ^ t))"
    using assms(2,3) by (simp add: fpow_def Let_def)
  show ?thesis
    unfolding discounted_cost_def Let_def
    by (simp only: e1 e2 assms(4) and_then_Inr) (rule fdiv_const_total [OF ne])
qed

lemma discounted_cost_underflow:
  assumes "0 < t" "t \<le> 100" "\<bar>(1 + d) ^ t\<bar> \<le> ZERO_BELOW"
    and "fadd (Finite 1) (Finite d) = Finite (1 + d)"
  shows "discounted_cost ae p d t = Inl ZeroDivisionError"
proof -
  have g1: "in_band 1 (103 / 100 :: real)" by (simp add: in_band_def)
  have "in_band (1 * t) ((103 / 100 :: real) ^ t)"
    by (rule in_band_power [OF g1]) simp
  then have g: "in_band 100 ((103 / 100 :: real) ^ t)"
    by (rule in_band_mono) (use assms(2) in simp)
  have e1: "fpow (Finite (103 / 100)) t = Inr (Finite ((103 / 100) ^ t))"
    by (rule fpow_in_band [OF g]) simp_all
  have "\<not> OVERFLOW_AT \<le> \<bar>(1 + d) ^ t\<bar>"
    using assms(3) thresholds by (simp add: ZERO_BELOW_def OVERFLOW_AT_def)
  then have e2: "fpow (Finite (1 + d)) t = Inr (Finite 0)"
    using assms(1,3) by (simp add: fpow_def Let_def)
  show ?thesis
    unfolding discounted_cost_def Let_def
    by (simp only: e1 e2 assms(4) and_then_Inr) simp
qed

lemma npv_loop_raises:
  assumes "\<forall>t\<in>set ys. \<exists>v. discounted_cost ae p d t = Inr v"
    and "discounted_cost ae p d y = Inl e"
  shows "npv_loop ae p d (ys @ y # zs) acc = Inl e"
  using assms(1)
proof (induction ys arbitrary: acc)
  case Nil
  then show ?case using assms(2) by simp
next
  case (Cons t ys)
  then obtain v where "discounted_cost ae p d t = Inr v" by auto
  then show ?case using Cons by simp
qed

lemma liability_underflow_example:
  "calculate_carbon_liability ''Singapore'' 59 25 (- (1 - 1 / 2 ^ 53)) = Inl ZeroDivisionError"
proof -
  let ?d = "- (1 - 1 / 2 ^ 53) :: real"
  have base: "1 + ?d = 1 / 2 ^ 53" by simp
  have add: "fadd (Finite 1) (Finite ?d) = Finite (1 + ?d)"
    unfolding base using fadd_in_band [of 53 1 ?d] by (simp add: in_band_def)
  have pw: "(1 + ?d) ^ t = 1 / 2 ^ (53 * t)" for t
    unfolding base by (simp add: power_divide power_mult)
  have ok: "\<exists>v. discounted_cost ae 59 ?d t = Inr v" if "t \<in> set [0..<21]" for t ae
  proof (rule discounted_cost_total [OF _ _ _ add])
    show "t \<le> 100" using that by simp
    have ab: "\<bar>(1 + ?d) ^ t\<bar> = 1 / 2 ^ (53 * t)" unfolding pw by simp
    have "53 * t \<le> 1060" using that by simp
    then have "(2::real) ^ (53 * t) \<le> 2 ^ 1060" by (intro power_increasing) auto
    then have a: "(1::real) / 2 ^ 1060 \<le> 1 / 2 ^ (53 * t)" by (intro divide_left_mono) auto
    have b: "ZERO_BELOW < 1 / 2 ^ 1060" by (simp add: ZERO_BELOW_def)
    show "ZERO_BELOW < \<bar>(1 + ?d) ^ t\<bar>" using a b ab by linarith
    have "(1::real) / 2 ^ (53 * t) \<le> 1" by simp
    moreover have "(1::real) \<le> 2 ^ 1000" by simp
    ultimately show "\<bar>(1 + ?d) ^ t\<bar> < OVERFLOW_AT" using ab thresholds(4) by linarith
  qed
  have bad: "discounted_cost ae 59 ?d 21 = Inl ZeroDivisionError" for ae
  proof (rule discounted_cost_underflow [OF _ _ _ add])
    show "\<bar>(1 + ?d) ^ 21\<bar> \<le> ZERO_BELOW" unfolding pw by (simp add: ZERO_BELOW_def)
  qed simp_all
  have split: "[0..<nat 25] = [0..<21] @ 21 # [22..<25]"
    by (simp add: upt_rec)
  have "npv_loop ae 59 ?d [0..<nat 25] acc = Inl ZeroDivisionError" for ae acc
    unfolding split using ok bad by (intro npv_loop_raises) auto
  then show ?thesis
    using annual_emissions_closed(1) [OF capacity_bounds [OF singapore_entry, THEN conjunct1]
        capacity_bounds [OF singapore_entry, THEN conjunct2]]
    by (simp add: calculate_carbon_liability_def liability_of_def getitem_Some [OF singapore_entry])
qed


subsection \<open>The calculator tab's loop in closed form\<close>

lemma tab2_loop_sum:
  "1 + d \<noteq> 0 \<Longrightarrow>
   tab2_loop ae p esc cov d ys acc yd
     = Inr (acc + (\<Sum>t\<leftarrow>ys. ae * (cov / 100) * (p * (1 + esc / 100) ^ t) * 1000000 / (1 + d) ^ t),
            yd @ map (\<lambda>t. \<lparr>Year = 2025 + int t, Carbon_Price = p * (1 + esc / 100) ^ t,
                 Annual_Cost_M = ae * (cov / 100) * (p * (1 + esc / 100) ^ t) * 1000000 / 1000000,
                 Discounted_Cost_M =
                   ae * (cov / 100) * (p * (1 + esc / 100) ^ t) * 1000000 / (1 + d) ^ t / 1000000\<rparr>)
              ys)"
  by (induction ys arbitrary: acc yd) (simp_all add: Let_def truediv_Inr algebra_simps)

lemma tab2_liability_closed:
  assumes "1 + d \<noteq> 0"
  shows "\<exists>res. tab2_liability data p esc cov years d = Inr res \<and>
     npv_liability_b res
       = spec_npv (annual_emissions_t (capacity_kbpd data)) p (esc / 100) (cov / 100) d (nat years)
           / 1000000000"
proof -
  have "(\<Sum>t\<leftarrow>[0..<nat years]. capacity_kbpd data * 1000 * (14 / 100) * 365 / 1000000
            * (cov / 100) * (p * (1 + esc / 100) ^ t) * 1000000 / (1 + d) ^ t)
      = spec_npv (annual_emissions_t (capacity_kbpd data)) p (esc / 100) (cov / 100) d (nat years)"
    unfolding spec_npv_def annual_emissions_t_def interv_sum_list_conv_sum_set_nat
    by (rule sum.cong) (auto simp: atLeast0LessThan)
  then show ?thesis
    using assms by (simp add: tab2_liability_def tab2_loop_sum Let_def)
qed

lemma capacity_pos: "map_of COUNTRY_DATA cname = Some data \<Longrightarrow> 0 < capacity_kbpd data"
  by (auto simp: COUNTRY_DATA_def split: if_splits)

lemma spec_npv_1: "spec_npv ae p e c d (Suc 0) = ae * c * p"
  by (simp add: spec_npv_def)

lemma spec_npv_2:
  "spec_npv ae p e c d (Suc (Suc 0)) = ae * c * p + ae * c * (p * (1 + e)) / (1 + d)"
  by (simp add: spec_npv_def)

subsection \<open>Carbon liability: sign and monotonicity of the formula\<close>

lemma spec_npv_nonneg:
  assumes "0 \<le> ae" "0 \<le> p" "0 \<le> c" "- 1 < e" "- 1 < d"
  shows "0 \<le> spec_npv ae p e c d h"
  unfolding spec_npv_def using assms
  by (intro sum_nonneg divide_nonneg_nonneg mult_nonneg_nonneg zero_le_power) auto

lemma discounted_term_mono:
  fixes ae p c e d1 d2 :: real
  assumes "0 \<le> ae" "0 \<le> p" "0 \<le> c" "- 1 < e" "- 1 < d1" "d1 \<le> d2"
  shows "ae * c * (p * (1 + e) ^ t) / (1 + d2) ^ t \<le> ae * c * (p * (1 + e) ^ t) / (1 + d1) ^ t"
proof -
  have "(1 + d1) ^ t \<le> (1 + d2) ^ t" using assms by (intro power_mono) auto
  moreover have "0 < (1 + d1) ^ t" using assms by simp
  moreover have "0 \<le> ae * c * (p * (1 + e) ^ t)" using assms by simp
  ultimately show ?thesis
    by (intro divide_left_mono) auto
qed

lemma spec_npv_antimono:
  assumes "0 \<le> ae" "0 \<le> p" "0 \<le> c" "- 1 < e" "- 1 < d1" "d1 \<le> d2"
  shows "spec_npv ae p e c d2 h \<le> spec_npv ae p e c d1 h"
  unfolding spec_npv_def by (rule sum_mono) (rule discounted_term_mono [OF assms])

lemma spec_npv_strict:
  assumes "0 < ae" "0 < p" "0 < c" "- 1 < e" "- 1 < d1" "d1 < d2" "2 \<le> h"
  shows "spec_npv ae p e c d2 h < spec_npv ae p e c d1 h"
  unfolding spec_npv_def
proof (rule sum_strict_mono_ex1)
  show "finite {..<h}" by simp
  show "\<forall>t\<in>{..<h}. ae * c * (p * (1 + e) ^ t) / (1 + d2) ^ t
          \<le> ae * c * (p * (1 + e) ^ t) / (1 + d1) ^ t"
    using assms by (intro ballI discounted_term_mono) auto
  have "0 < ae * c * (p * (1 + e) ^ 1)" using assms by simp
  moreover have "(1 + d1) ^ 1 < (1 + d2) ^ 1" "0 < (1 + d1) ^ 1" using assms by auto
  ultimately have "ae * c * (p * (1 + e) ^ 1) / (1 + d2) ^ 1
      < ae * c * (p * (1 + e) ^ 1) / (1 + d1) ^ 1"
    by (intro divide_strict_left_mono) auto
  moreover have "1 \<in> {..<h}" using assms by simp
  ultimately show "\<exists>t\<in>{..<h}. ae * c * (p * (1 + e) ^ t) / (1 + d2) ^ t
      < ae * c * (p * (1 + e) ^ t) / (1 + d1) ^ t"
    by blast
qed

lemma annual_emissions_t_pos: "0 < c \<Longrightarrow> 0 < annual_emissions_t c"
  by (simp add: annual_emissions_t_def)


lemma spec_npv_3:
  "spec_npv ae p e c d 3
     = ae * c * p + ae * c * (p * (1 + e)) / (1 + d) + ae * c * (p * (1 + e) ^ 2) / (1 + d) ^ 2"
  by (simp add: spec_npv_def numeral_3_eq_3 lessThan_Suc numeral_2_eq_2)

lemma liability_closed:
  assumes "map_of COUNTRY_DATA cname = Some data"
    and "p = 0 \<or> (1 / 1000 \<le> p \<and> p \<le> 1000)"
    and "- 1 / 2 \<le> d" "d \<le> 1" "h \<le> 100"
  shows "calculate_carbon_liability cname p h d
     = Inr (Finite (spec_npv (annual_emissions_t (capacity_kbpd data)) p (3 / 100) 1 d (nat h)
                    / 1000000000))"
  unfolding calculate_carbon_liability_def
  using capacity_bounds [OF assms(1)] assms by (intro liability_of_closed) auto

subsection \<open>Carbon liability: the claims\<close>

text \<open>
  C1 as stated fails for \<^verbatim>\<open>calculate_carbon_liability\<close>: the function has no coverage
  and no escalation parameter. For Singapore at base price 59, two years and discount
  rate 5 percent, its result is not the value of the formula at escalation 5 percent
  and coverage 0.8 (Singapore's \<^verbatim>\<open>coverage_pct\<close>).
\<close>

theorem liability_ignores_coverage_and_escalation:
  "calculate_carbon_liability ''Singapore'' 59 2 (5 / 100)
     \<noteq> Inr (Finite (spec_npv (annual_emissions_t 1512) 59 (5 / 100) (8 / 10) (5 / 100) (nat 2)
                      / 1000000000))"
proof -
  have "calculate_carbon_liability ''Singapore'' 59 2 (5 / 100)
      = Inr (Finite (spec_npv (annual_emissions_t 1512) 59 (3 / 100) 1 (5 / 100) (nat 2)
                     / 1000000000))"
    using liability_closed [OF singapore_entry, of 59 "5 / 100" 2] by simp
  moreover have "nat 2 = Suc (Suc 0)" by simp
  ultimately show ?thesis
    by (simp only: spec_npv_2 sum.inject pyfloat.inject) (simp add: annual_emissions_t_def)
qed

text \<open>
  C1, amended. For every country of the table, base price 0 or between 0.001 and 1000,
  discount rate between \<open>-0.5\<close> and 1 and horizon from 1 to 100 (ranges that hold every
  value the application passes, and in which no power or quotient leaves the range of
  the doubles), \<^verbatim>\<open>calculate_carbon_liability\<close> returns, in billions of dollars and up to
  floating-point rounding, the sum over \<open>t < h\<close> of annual emissions times price times
  \<open>1.03 ^ t\<close>, divided by \<open>(1 + d) ^ t\<close>: the escalation is fixed at 3 percent and all
  emissions are covered. The loop of the calculator tab, which receives the escalation
  and the coverage from its widgets (as percentages \<open>esc\<close> and \<open>cov\<close>), returns for every
  input in its widgets' ranges the formula at \<open>e = esc / 100\<close> and \<open>c = cov / 100\<close>. In
  both, each year's cost is escalated first and discounted after.
\<close>

theorem liability_formula:
  "(\<forall>cname data p h d.
      map_of COUNTRY_DATA cname = Some data \<and> (p = 0 \<or> (1 / 1000 \<le> p \<and> p \<le> 1000)) \<and>
      - 1 / 2 \<le> d \<and> d \<le> 1 \<and> 1 \<le> h \<and> h \<le> 100 \<longrightarrow>
      calculate_carbon_liability cname p h d
        = Inr (Finite (spec_npv (annual_emissions_t (capacity_kbpd data)) p (3 / 100) 1 d (nat h)
                       / 1000000000)))
   \<and> (\<forall>data p esc cov h d.
        0 \<le> p \<and> p \<le> 200 \<and> 0 \<le> esc \<and> esc \<le> 10 \<and> 0 \<le> cov \<and> cov \<le> 100 \<and>
        0 \<le> d \<and> d \<le> 1 \<and> 1 \<le> h \<and> h \<le> 100 \<longrightarrow>
      (\<exists>res. tab2_liability data p esc cov h d = Inr res \<and>
         npv_liability_b res
           = spec_npv (annual_emissions_t (capacity_kbpd data)) p (esc / 100) (cov / 100) d (nat h)
               / 1000000000))"
proof (intro conjI allI impI)
  fix cname :: string and data :: country and p d :: real and h :: int
  assume "map_of COUNTRY_DATA cname = Some data \<and> (p = 0 \<or> (1 / 1000 \<le> p \<and> p \<le> 1000)) \<and>
      - 1 / 2 \<le> d \<and> d \<le> 1 \<and> 1 \<le> h \<and> h \<le> 100"
  then show "calculate_carbon_liability cname p h d
        = Inr (Finite (spec_npv (annual_emissions_t (capacity_kbpd data)) p (3 / 100) 1 d (nat h)
                       / 1000000000))"
    by (intro liability_closed) auto
next
  fix data :: country and p esc cov d :: real and h :: int
  assume "0 \<le> p \<and> p \<le> 200 \<and> 0 \<le> esc \<and> esc \<le> 10 \<and> 0 \<le> cov \<and> cov \<le> 100 \<and>
        0 \<le> d \<and> d \<le> 1 \<and> 1 \<le> h \<and> h \<le> 100"
  then have "1 + d \<noteq> 0" by auto
  then show "\<exists>res. tab2_liability data p esc cov h d = Inr res \<and>
         npv_liability_b res
           = spec_npv (annual_emissions_t (capacity_kbpd data)) p (esc / 100) (cov / 100) d (nat h)
               / 1000000000"
    by (rule tab2_liability_closed)
qed

theorem liability_formula_witness:
  "calculate_carbon_liability ''Singapore'' 59 3 (5 / 100)
     = Inr (Finite (77263200 * 59 * (1 + 103 / 105 + (103 / 105) ^ 2) / 1000000000))
   \<and> (\<exists>res. tab2_liability
         \<lparr>refineries = 3, capacity_kbpd = 1512, govt_ownership = 13 / 100,
          carbon_price_2024 = 59, carbon_price_2030 = 75, ets_status = ''Operational'',
          ets_launch_year = 2019, coverage_pct = 80, total_liability_b = 52 / 10,
          govt_exposure_b = 9 / 10, avg_refinery_age = 45\<rparr> 59 4 80 3 (5 / 100) = Inr res
        \<and> npv_liability_b res
            = 77263200 * (80 / 100) * 59 * (1 + 104 / 105 + (104 / 105) ^ 2) / 1000000000)"
proof -
  note a = liability_formula [THEN conjunct1, rule_format,
      where cname = "''Singapore''" and p = 59 and h = 3 and d = "5 / 100",
      OF conjI [OF singapore_entry]]
  note b = liability_formula [THEN conjunct2, rule_format,
      where data = "\<lparr>refineries = 3, capacity_kbpd = 1512, govt_ownership = 13 / 100,
          carbon_price_2024 = 59, carbon_price_2030 = 75, ets_status = ''Operational'',
          ets_launch_year = 2019, coverage_pct = 80, total_liability_b = 52 / 10,
          govt_exposure_b = 9 / 10, avg_refinery_age = 45\<rparr>"
        and p = 59 and esc = 4 and cov = 80 and h = 3 and d = "5 / 100"]
  have "calculate_carbon_liability ''Singapore'' 59 3 (5 / 100)
     = Inr (Finite (77263200 * 59 * (1 + 103 / 105 + (103 / 105) ^ 2) / 1000000000))"
    using a by (simp add: spec_npv_3 annual_emissions_t_def power2_eq_square)
  moreover have "\<exists>res. tab2_liability
         \<lparr>refineries = 3, capacity_kbpd = 1512, govt_ownership = 13 / 100,
          carbon_price_2024 = 59, carbon_price_2030 = 75, ets_status = ''Operational'',
          ets_launch_year = 2019, coverage_pct = 80, total_liability_b = 52 / 10,
          govt_exposure_b = 9 / 10, avg_refinery_age = 45\<rparr> 59 4 80 3 (5 / 100) = Inr res
        \<and> npv_liability_b res
            = 77263200 * (80 / 100) * 59 * (1 + 104 / 105 + (104 / 105) ^ 2) / 1000000000"
    using b by (simp add: spec_npv_3 annual_emissions_t_def power2_eq_square)
  ultimately show ?thesis by blast
qed







subsection \<open>Phase progress\<close>

text \<open>
  C8. For every integer current year and every phase with range [start, end), the entry
  returned for the phase has progress 0 and status "Not Started" when the year is before
  start, progress 100 and status "Complete" when the year is at or after end, and
  otherwise progress (year - start) / (end - start) * 100 with status "In Progress".
  For the phase (2025, 2028) of the source, the year 2026 gives progress 100/3 and
  "In Progress", and the year 2029 gives progress 100 and "Complete".
\<close>

theorem phase_progress_cases:
  "(\<forall>phs current_year ph info. (ph, info) \<in> set phs \<and> p_start info \<le> p_end info \<longrightarrow>
      (\<exists>r \<in> set (phase_progress_of phs current_year).
         phase r = ph \<and> r_start r = p_start info \<and> r_end r = p_end info \<and>
         (current_year < p_start info \<longrightarrow> progress r = 0 \<and> status r = ''Not Started'') \<and>
         (current_year \<ge> p_end info \<longrightarrow> progress r = 100 \<and> status r = ''Complete'') \<and>
         (p_start info \<le> current_year \<and> current_year < p_end info \<longrightarrow>
            progress r = of_int (current_year - p_start info) / of_int (p_end info - p_start info) * 100
            \<and> status r = ''In Progress'')))
   \<and> map (\<lambda>r. (r_start r, r_end r, progress r, status r)) (get_phase_progress 2026) ! 0
       = (2025, 2028, 100 / 3, ''In Progress'')
   \<and> map (\<lambda>r. (r_start r, r_end r, progress r, status r)) (get_phase_progress 2029) ! 0
       = (2025, 2028, 100, ''Complete'')"
proof (intro conjI allI impI)
  fix phs :: "(string \<times> phase_info) list" and current_year :: int
    and ph :: string and info :: phase_info
  assume h: "(ph, info) \<in> set phs \<and> p_start info \<le> p_end info"
  let ?r = "phase_entry current_year ph info"
  have "?r \<in> set (phase_progress_of phs current_year)"
    using h by (force simp: phase_progress_of_def)
  moreover have "phase ?r = ph \<and> r_start ?r = p_start info \<and> r_end ?r = p_end info"
    by (simp add: phase_entry_def)
  moreover have "current_year < p_start info \<longrightarrow> progress ?r = 0 \<and> status ?r = ''Not Started''"
    by (simp add: phase_entry_def)
  moreover have "current_year \<ge> p_end info \<longrightarrow> progress ?r = 100 \<and> status ?r = ''Complete''"
    using h by (simp add: phase_entry_def)
  moreover have "p_start info \<le> current_year \<and> current_year < p_end info \<longrightarrow>
      progress ?r = of_int (current_year - p_start info) / of_int (p_end info - p_start info) * 100
      \<and> status ?r = ''In Progress''"
    by (simp add: phase_entry_def)
  ultimately show "\<exists>r \<in> set (phase_progress_of phs current_year).
         phase r = ph \<and> r_start r = p_start info \<and> r_end r = p_end info \<and>
         (current_year < p_start info \<longrightarrow> progress r = 0 \<and> status r = ''Not Started'') \<and>
         (current_year \<ge> p_end info \<longrightarrow> progress r = 100 \<and> status r = ''Complete'') \<and>
         (p_start info \<le> current_year \<and> current_year < p_end info \<longrightarrow>
            progress r = of_int (current_year - p_start info) / of_int (p_end info - p_start info) * 100
            \<and> status r = ''In Progress'')"
    by blast
next
  show "map (\<lambda>r. (r_start r, r_end r, progress r, status r)) (get_phase_progress 2026) ! 0
       = (2025, 2028, 100 / 3, ''In Progress'')"
    by (simp add: get_phase_progress_def phase_progress_of_def phases_def phase_entry_def)
next
  show "map (\<lambda>r. (r_start r, r_end r, progress r, status r)) (get_phase_progress 2029) ! 0
       = (2025, 2028, 100, ''Complete'')"
    by (simp add: get_phase_progress_def phase_progress_of_def phases_def phase_entry_def)
qed

theorem phase_progress_cases_witness:
  "(''Phase 2'', \<lparr>p_start = 2028, p_end = 2035, p_name = ''Convergence''\<rparr>) \<in> set phases
   \<and> (2028::int) \<le> 2035
   \<and> (\<exists>r \<in> set (get_phase_progress 2030).
        phase r = ''Phase 2'' \<and> progress r = 200 / 7 \<and> status r = ''In Progress'')"
proof -
  have mem: "(''Phase 2'', \<lparr>p_start = 2028, p_end = 2035, p_name = ''Convergence''\<rparr>) \<in> set phases"
    by (simp add: phases_def)
  note g = phase_progress_cases [THEN conjunct1, rule_format,
      where phs = phases and current_year = 2030 and ph = "''Phase 2''"
        and info = "\<lparr>p_start = 2028, p_end = 2035, p_name = ''Convergence''\<rparr>"]
  have "\<exists>r \<in> set (phase_progress_of phases 2030).
         phase r = ''Phase 2'' \<and> progress r = 200 / 7 \<and> status r = ''In Progress''"
    using g mem by auto
  then show ?thesis
    using mem by (auto simp: get_phase_progress_def)
qed

subsection \<open>Divergence metrics\<close>

lemma divergence_of_table:
  assumes "\<exists>d\<in>set (map snd table). 0 < carbon_price_2024 d"
  shows "divergence_metrics_of table =
     Inr \<lparr>timeline_spread = Max (set (map ets_launch_year (map snd table)))
                               - Min (set (map ets_launch_year (map snd table))),
          price_spread =
            Finite (Max (set (filter (\<lambda>p. 0 < p) (map carbon_price_2024 (map snd table))))
                    / Min (set (filter (\<lambda>p. 0 < p) (map carbon_price_2024 (map snd table))))),
          max_price = Max (set (filter (\<lambda>p. 0 < p) (map carbon_price_2024 (map snd table)))),
          min_price = Min (set (filter (\<lambda>p. 0 < p) (map carbon_price_2024 (map snd table))))\<rparr>"
proof -
  let ?years = "map ets_launch_year (map snd table)"
  let ?prices = "map carbon_price_2024 (filter (\<lambda>d. carbon_price_2024 d > 0) (map snd table))"
  let ?pos = "filter (\<lambda>p. 0 < p) (map carbon_price_2024 (map snd table))"
  have eq: "?prices = ?pos" by (simp add: filter_map comp_def)
  have ne: "?pos \<noteq> []" using assms by (auto simp: filter_empty_conv)
  have yne: "?years \<noteq> []" using assms by auto
  have allpos: "\<forall>p\<in>set ?pos. 0 < p" by auto
  have ne': "set ?pos \<noteq> {}" using ne by (simp only: set_empty not_False_eq_True)
  have "Min (set ?pos) \<in> set ?pos" by (rule Min_in [OF finite_set ne'])
  then have mpos: "0 < Min (set ?pos)" using allpos by blast
  have again: "filter (\<lambda>p. 0 < p) ?pos = ?pos" by simp
  show ?thesis
    unfolding divergence_metrics_of_def Let_def eq
    using mpos
    by (simp only: py_max_Max [OF yne] py_min_Min [OF yne] py_min_Min [OF ne]
        py_max_Max [OF ne] again and_then_Inr if_True truediv_def)
      (simp add: truediv_def)
qed

lemma divergence_embedded:
  "get_divergence_metrics =
     Inr \<lparr>timeline_spread = 11, price_spread = Finite (295 / 100), max_price = 59, min_price = 20\<rparr>"
  by (simp add: get_divergence_metrics_def divergence_metrics_of_def COUNTRY_DATA_def
      truediv_def Let_def)




subsection \<open>Price convergence: the per-year price and the loop\<close>


lemma country_price_spec:
  "country_price Y a = spec_price_path 2024 (p2024 a) 2030 (p2030 a) 2045 (p2045 a) Y"
  by (simp add: country_price_def spec_price_path_def Let_def)

lemma interp_pos:
  fixes p q t :: real
  assumes "0 \<le> p" "0 < q" "0 < t" "t \<le> 1"
  shows "0 < p + (q - p) * t"
proof -
  have "p + (q - p) * t = p * (1 - t) + q * t" by (simp add: algebra_simps)
  moreover have "0 \<le> p * (1 - t)" using assms by simp
  moreover have "0 < q * t" using assms by simp
  ultimately show ?thesis by linarith
qed

lemma country_price_pos_later:
  assumes "0 \<le> p2024 a" "0 < p2030 a" "0 < p2045 a" "2024 < Y"
  shows "0 < country_price Y a"
proof -
  consider "Y \<le> 2030" | "2030 < Y" "Y \<le> 2045" | "2045 < Y" by linarith
  then show ?thesis
  proof cases
    case 1
    have eq: "country_price Y a = p2024 a + (p2030 a - p2024 a) * (of_int (Y - 2024) / 6)"
      using 1 assms(4) by (simp add: country_price_def Let_def)
    have "0 < (of_int (Y - 2024) / 6 :: real)" "(of_int (Y - 2024) / 6 :: real) \<le> 1"
      using 1 assms(4) by auto
    then show ?thesis
      unfolding eq using assms(1,2) by (intro interp_pos)
  next
    case 2
    have eq: "country_price Y a = p2030 a + (p2045 a - p2030 a) * (of_int (Y - 2030) / 15)"
      using 2 by (simp add: country_price_def Let_def)
    have "0 < (of_int (Y - 2030) / 15 :: real)" "(of_int (Y - 2030) / 15 :: real) \<le> 1"
      using 2 by auto
    then show ?thesis
      unfolding eq using assms(2,3) by (intro interp_pos) auto
  next
    case 3
    then show ?thesis using assms(3) by (simp add: country_price_def)
  qed
qed

lemma country_price_pos:
  assumes "0 < p2024 a" "0 < p2030 a" "0 < p2045 a"
  shows "0 < country_price Y a"
proof (cases "Y \<le> 2024")
  case True
  then show ?thesis using assms(1) by (simp add: country_price_def)
next
  case False
  then show ?thesis using assms by (intro country_price_pos_later) auto
qed

lemma active_prices_pos: "p \<in> set (active_prices r) \<Longrightarrow> 0 < p"
  by (auto simp: active_prices_def)

lemma add_spread_ok:
  assumes "active_prices r \<noteq> []"
  shows "\<exists>mx mn. py_max (active_prices r) = Inr mx \<and> py_min (active_prices r) = Inr mn \<and>
     0 < mn \<and> mn \<le> mx \<and> add_spread r = Inr (r @ [(''spread'', mx / mn)])"
proof -
  let ?ap = "active_prices r"
  have fin: "finite (set ?ap)" "set ?ap \<noteq> {}" using assms by auto
  have "Min (set ?ap) \<in> set ?ap" using fin by (rule Min_in)
  then have pos: "0 < Min (set ?ap)" by (rule active_prices_pos)
  have "Max (set ?ap) \<in> set ?ap" using fin by (rule Max_in)
  then have le: "Min (set ?ap) \<le> Max (set ?ap)" using fin(1) by (intro Min_le)
  have "add_spread r = Inr (r @ [(''spread'', Max (set ?ap) / Min (set ?ap))])"
    using pos by (simp add: add_spread_def Let_def py_min_Min [OF assms] py_max_Max [OF assms]
        truediv_def)
  then show ?thesis
    using pos le py_min_Min [OF assms] py_max_Max [OF assms] by blast
qed

lemma simulate_rows_ok:
  assumes "\<forall>y\<in>set ys. \<exists>r. add_spread (price_row trs y) = Inr r"
  shows "simulate_rows trs ys acc
     = Inr (acc @ map (\<lambda>y. projr (add_spread (price_row trs y))) ys)"
  using assms
proof (induction ys arbitrary: acc)
  case Nil
  then show ?case by simp
next
  case (Cons y ys)
  then obtain r where "add_spread (price_row trs y) = Inr r" by auto
  then show ?case using Cons by simp
qed

lemma active_prices_row_nonempty:
  assumes "(cname, a) \<in> set trs" "cname \<noteq> ''year''" "0 < country_price Y a"
  shows "active_prices (price_row trs Y) \<noteq> []"
proof -
  have "(cname, country_price Y a) \<in> set (price_row trs Y)"
    using assms(1) by (force simp: price_row_def)
  then have "country_price Y a \<in> set (active_prices (price_row trs Y))"
    using assms(2,3) by (force simp: active_prices_def)
  then show ?thesis by auto
qed

lemma singapore_anchors:
  "\<exists>a. (''Singapore'', a) \<in> set (scenario_trajectories s) \<and> 0 < p2024 a \<and> 0 < p2030 a \<and> 0 < p2045 a"
  by (simp add: scenario_trajectories_def trajectories_def)

lemma scenario_row_active: "active_prices (price_row (scenario_trajectories s) Y) \<noteq> []"
proof -
  obtain a where a: "(''Singapore'', a) \<in> set (scenario_trajectories s)"
    "0 < p2024 a" "0 < p2030 a" "0 < p2045 a"
    using singapore_anchors by blast
  show ?thesis
    by (rule active_prices_row_nonempty [OF a(1)]) (simp_all add: country_price_pos a)
qed

lemma simulate_closed:
  "simulate_price_convergence s
     = Inr (map (\<lambda>y. projr (add_spread (price_row (scenario_trajectories s) y))) [2024..2050])"
  unfolding simulate_price_convergence_def
  using simulate_rows_ok [of "[2024..2050]" "scenario_trajectories s" "[]"]
    add_spread_ok [OF scenario_row_active]
  by (metis append_Nil)

lemma map_fst_scenario: "map fst (scenario_trajectories s) = map fst trajectories"
  by (simp add: scenario_trajectories_def trajectories_def)

lemma map_of_price_row:
  assumes "distinct (map fst trs)" "(cname, a) \<in> set trs" "''year'' \<notin> fst ` set trs"
  shows "map_of (price_row trs Y @ [(''spread'', v)]) cname = Some (country_price Y a)"
    and "map_of (price_row trs Y @ [(''spread'', v)]) ''year'' = Some (of_int Y)"
proof -
  have ne: "cname \<noteq> ''year''" using assms(2,3) by force
  have "map_of trs cname = Some a" using assms(1,2) by (rule map_of_is_SomeI)
  then have "map_of (map (\<lambda>(c, p). (c, country_price Y p)) trs) cname = Some (country_price Y a)"
    by (simp add: map_of_map)
  then show "map_of (price_row trs Y @ [(''spread'', v)]) cname = Some (country_price Y a)"
    using ne by (simp add: price_row_def map_add_Some_iff)
  show "map_of (price_row trs Y @ [(''spread'', v)]) ''year'' = Some (of_int Y)"
    by (simp add: price_row_def map_add_Some_iff)
qed

lemma upto_27_length: "length [2024..2050] = 27"
  by simp

lemma upto_27_nth: "i < 27 \<Longrightarrow> [2024..2050] ! i = 2024 + int i"
  by (rule nth_upto) simp

lemma simulate_rows_shape:
  "\<exists>rows. simulate_price_convergence s = Inr rows \<and> length rows = 27 \<and>
     (\<forall>i<27. \<exists>mx mn.
        py_max (active_prices (price_row (scenario_trajectories s) (2024 + int i))) = Inr mx \<and>
        py_min (active_prices (price_row (scenario_trajectories s) (2024 + int i))) = Inr mn \<and>
        0 < mn \<and> mn \<le> mx \<and>
        rows ! i = price_row (scenario_trajectories s) (2024 + int i) @ [(''spread'', mx / mn)])"
proof -
  let ?f = "\<lambda>y. projr (add_spread (price_row (scenario_trajectories s) y))"
  let ?rows = "map ?f [2024..2050]"
  have "\<exists>mx mn.
        py_max (active_prices (price_row (scenario_trajectories s) (2024 + int i))) = Inr mx \<and>
        py_min (active_prices (price_row (scenario_trajectories s) (2024 + int i))) = Inr mn \<and>
        0 < mn \<and> mn \<le> mx \<and>
        ?rows ! i = price_row (scenario_trajectories s) (2024 + int i) @ [(''spread'', mx / mn)]"
    if "i < 27" for i
  proof -
    have "?rows ! i = ?f (2024 + int i)"
      using that by (simp only: nth_map upto_27_length upto_27_nth)
    then show ?thesis
      using add_spread_ok [OF scenario_row_active, of s "2024 + int i"] by force
  qed
  moreover have "length ?rows = 27" by simp
  ultimately show ?thesis
    using simulate_closed [of s] by blast
qed

lemma trajectories_keys:
  "distinct (map fst (scenario_trajectories s))"
  "''year'' \<notin> fst ` set (scenario_trajectories s)"
  "''spread'' \<notin> fst ` set (scenario_trajectories s)"
  unfolding set_map [symmetric] map_fst_scenario by (simp_all add: trajectories_def)

lemma map_of_price_row_spread:
  assumes "''spread'' \<notin> fst ` set trs"
  shows "map_of (price_row trs Y @ [(''spread'', v)]) ''spread'' = Some v"
proof -
  have "''spread'' \<notin> fst ` set (price_row trs Y)"
    using assms by (force simp: price_row_def)
  then have "map_of (price_row trs Y) ''spread'' = None"
    by (simp add: map_of_eq_None_iff)
  then show ?thesis by (simp add: map_add_def)
qed

lemma trajectories_pos:
  "(cname, a) \<in> set trajectories \<Longrightarrow> 0 \<le> p2024 a \<and> 0 < p2030 a \<and> 0 < p2045 a"
  by (auto simp: trajectories_def)

lemma interp_less_mid:
  fixes p m f t :: real
  assumes "0 < m" "1 < f" "0 < t"
  shows "p + (m - p) * t < p + (m * f - p) * t"
proof -
  have "m * 1 < m * f" using assms by (intro mult_strict_left_mono) auto
  then have "(m - p) < (m * f - p)" by simp
  then have "(m - p) * t < (m * f - p) * t" using assms(3) by (intro mult_strict_right_mono)
  then show ?thesis by simp
qed

lemma interp_less_end:
  fixes m e f g t :: real
  assumes "0 < m" "0 < e" "1 < f" "1 < g" "0 < t" "t \<le> 1"
  shows "m + (e - m) * t < m * f + (e * g - m * f) * t"
proof -
  have "m * 1 \<le> m * f" using assms by (intro mult_left_mono) auto
  then have a: "m * (1 - t) \<le> m * f * (1 - t)" using assms(6) by (intro mult_right_mono) auto
  have "e * 1 < e * g" using assms by (intro mult_strict_left_mono) auto
  then have b: "e * t < e * g * t" using assms(5) by (intro mult_strict_right_mono) auto
  have "m + (e - m) * t = m * (1 - t) + e * t" by (simp add: algebra_simps)
  moreover have "m * f + (e * g - m * f) * t = m * f * (1 - t) + e * g * t"
    by (simp add: algebra_simps)
  ultimately show ?thesis using a b by linarith
qed

lemma country_price_scaled:
  assumes "0 < p2030 a" "0 < p2045 a" "1 < f" "1 < g"
  shows "Y \<le> 2024 \<Longrightarrow>
           country_price Y (a\<lparr>p2030 := p2030 a * f, p2045 := p2045 a * g\<rparr>) = country_price Y a"
    and "2024 < Y \<Longrightarrow>
           country_price Y a < country_price Y (a\<lparr>p2030 := p2030 a * f, p2045 := p2045 a * g\<rparr>)"
proof -
  show "Y \<le> 2024 \<Longrightarrow>
           country_price Y (a\<lparr>p2030 := p2030 a * f, p2045 := p2045 a * g\<rparr>) = country_price Y a"
    by (simp add: country_price_def)
  assume y: "2024 < Y"
  let ?a = "a\<lparr>p2030 := p2030 a * f, p2045 := p2045 a * g\<rparr>"
  consider "Y \<le> 2030" | "2030 < Y" "Y \<le> 2045" | "2045 < Y" by linarith
  then show "country_price Y a < country_price Y ?a"
  proof cases
    case 1
    have "0 < (of_int (Y - 2024) / 6 :: real)" using y by simp
    then have "p2024 a + (p2030 a - p2024 a) * (of_int (Y - 2024) / 6)
        < p2024 a + (p2030 a * f - p2024 a) * (of_int (Y - 2024) / 6)"
      using assms by (intro interp_less_mid)
    then show ?thesis using 1 y by (simp add: country_price_def Let_def)
  next
    case 2
    have "0 < (of_int (Y - 2030) / 15 :: real)" "(of_int (Y - 2030) / 15 :: real) \<le> 1"
      using 2 by auto
    then have "p2030 a + (p2045 a - p2030 a) * (of_int (Y - 2030) / 15)
        < p2030 a * f + (p2045 a * g - p2030 a * f) * (of_int (Y - 2030) / 15)"
      using assms by (intro interp_less_end)
    then show ?thesis using 2 by (simp add: country_price_def Let_def)
  next
    case 3
    have "p2045 a * 1 < p2045 a * g" using assms by (intro mult_strict_left_mono) auto
    then show ?thesis using 3 by (simp add: country_price_def)
  qed
qed

lemma baseline_trajectories: "scenario_trajectories ''baseline'' = trajectories"
  by (simp add: scenario_trajectories_def)

lemma other_scenario:
  "s \<noteq> ''accelerated'' \<Longrightarrow> s \<noteq> ''delayed'' \<Longrightarrow> scenario_trajectories s = trajectories"
  by (simp add: scenario_trajectories_def)

lemma accelerated_member:
  "(cname, a) \<in> set trajectories \<Longrightarrow>
   (cname, a\<lparr>p2030 := p2030 a * (12 / 10), p2045 := p2045 a * (11 / 10)\<rparr>)
     \<in> set (scenario_trajectories ''accelerated'')"
  by (force simp: scenario_trajectories_def)


subsection \<open>Price convergence: the claims\<close>



text \<open>
  C4. For every scenario the simulation returns the rows of the years 2024 to 2050, and
  in each row the price of each country is the piecewise-linear path through the
  country's anchors (2024, start), (2030, mid), (2045, end) as the scenario has scaled
  them: start up to 2024, linear between 2024 and 2030, linear between 2030 and 2045,
  end after 2045. The per-year price computed by the loop body is that path for every
  integer year. Under "baseline" the Singapore prices of 2024, 2027 and 2030 are 59, 67
  and 75.
\<close>

theorem price_path_piecewise_linear:
  "(\<forall>scenario. \<exists>rows. simulate_price_convergence scenario = Inr rows \<and> length rows = 27 \<and>
      (\<forall>i<27. map_of (rows ! i) ''year'' = Some (of_int (2024 + int i)) \<and>
         (\<forall>(cname, a) \<in> set (scenario_trajectories scenario).
            map_of (rows ! i) cname =
              Some (spec_price_path 2024 (p2024 a) 2030 (p2030 a) 2045 (p2045 a)
                      (2024 + int i)))))
   \<and> (\<forall>Y a. country_price Y a
               = spec_price_path 2024 (p2024 a) 2030 (p2030 a) 2045 (p2045 a) Y)
   \<and> (''Singapore'', \<lparr>p2024 = 59, p2030 = 75, p2045 = 95\<rparr>)
        \<in> set (scenario_trajectories ''baseline'')
   \<and> (\<exists>rows. simulate_price_convergence ''baseline'' = Inr rows \<and>
        map_of (rows ! 0) ''year'' = Some 2024 \<and> map_of (rows ! 0) ''Singapore'' = Some 59 \<and>
        map_of (rows ! 3) ''year'' = Some 2027 \<and> map_of (rows ! 3) ''Singapore'' = Some 67 \<and>
        map_of (rows ! 6) ''year'' = Some 2030 \<and> map_of (rows ! 6) ''Singapore'' = Some 75)"
proof -
  have general: "\<exists>rows. simulate_price_convergence scenario = Inr rows \<and> length rows = 27 \<and>
      (\<forall>i<27. map_of (rows ! i) ''year'' = Some (of_int (2024 + int i)) \<and>
         (\<forall>(cname, a) \<in> set (scenario_trajectories scenario).
            map_of (rows ! i) cname =
              Some (spec_price_path 2024 (p2024 a) 2030 (p2030 a) 2045 (p2045 a)
                      (2024 + int i))))" for scenario
  proof -
    let ?trs = "scenario_trajectories scenario"
    obtain rows where rows: "simulate_price_convergence scenario = Inr rows" "length rows = 27"
      and each: "\<forall>i<27. \<exists>mx mn.
          py_max (active_prices (price_row ?trs (2024 + int i))) = Inr mx \<and>
          py_min (active_prices (price_row ?trs (2024 + int i))) = Inr mn \<and>
          0 < mn \<and> mn \<le> mx \<and>
          rows ! i = price_row ?trs (2024 + int i) @ [(''spread'', mx / mn)]"
      using simulate_rows_shape [of scenario] by blast
    have "map_of (rows ! i) ''year'' = Some (of_int (2024 + int i)) \<and>
         (\<forall>(cname, a) \<in> set ?trs.
            map_of (rows ! i) cname =
              Some (spec_price_path 2024 (p2024 a) 2030 (p2030 a) 2045 (p2045 a)
                      (2024 + int i)))" if lt: "i < 27" for i
    proof -
      obtain v where r: "rows ! i = price_row ?trs (2024 + int i) @ [(''spread'', v)]"
        using each lt by blast
      have "map_of (rows ! i) ''year'' = Some (of_int (2024 + int i))"
        unfolding r by (simp add: price_row_def map_add_Some_iff)
      moreover have "map_of (rows ! i) cname =
              Some (spec_price_path 2024 (p2024 a) 2030 (p2030 a) 2045 (p2045 a)
                      (2024 + int i))" if "(cname, a) \<in> set ?trs" for cname a
        unfolding r country_price_spec [symmetric]
        by (rule map_of_price_row(1) [OF trajectories_keys(1) that trajectories_keys(2)])
      ultimately show ?thesis by blast
    qed
    then show ?thesis using rows by blast
  qed
  have sg: "(''Singapore'', \<lparr>p2024 = 59, p2030 = 75, p2045 = 95\<rparr>)
      \<in> set (scenario_trajectories ''baseline'')"
    by (simp add: baseline_trajectories trajectories_def)
  obtain rows where rows: "simulate_price_convergence ''baseline'' = Inr rows"
    and each: "\<forall>i<27. map_of (rows ! i) ''year'' = Some (of_int (2024 + int i)) \<and>
         (\<forall>(cname, a) \<in> set (scenario_trajectories ''baseline'').
            map_of (rows ! i) cname =
              Some (spec_price_path 2024 (p2024 a) 2030 (p2030 a) 2045 (p2045 a)
                      (2024 + int i)))"
    using general [of "''baseline''"] by blast
  have at: "map_of (rows ! i) ''year'' = Some (of_int (2024 + int i)) \<and>
      map_of (rows ! i) ''Singapore'' = Some (spec_price_path 2024 59 2030 75 2045 95 (2024 + int i))"
    if "i < 27" for i
    using each that sg by fastforce
  have "map_of (rows ! 0) ''year'' = Some 2024 \<and> map_of (rows ! 0) ''Singapore'' = Some 59"
    using at [of 0] by (simp add: spec_price_path_def)
  moreover have "map_of (rows ! 3) ''year'' = Some 2027 \<and> map_of (rows ! 3) ''Singapore'' = Some 67"
    using at [of 3] by (simp add: spec_price_path_def)
  moreover have "map_of (rows ! 6) ''year'' = Some 2030 \<and> map_of (rows ! 6) ''Singapore'' = Some 75"
    using at [of 6] by (simp add: spec_price_path_def)
  ultimately have "\<exists>rows. simulate_price_convergence ''baseline'' = Inr rows \<and>
        map_of (rows ! 0) ''year'' = Some 2024 \<and> map_of (rows ! 0) ''Singapore'' = Some 59 \<and>
        map_of (rows ! 3) ''year'' = Some 2027 \<and> map_of (rows ! 3) ''Singapore'' = Some 67 \<and>
        map_of (rows ! 6) ''year'' = Some 2030 \<and> map_of (rows ! 6) ''Singapore'' = Some 75"
    using rows by blast
  then show ?thesis
    using general sg country_price_spec by blast
qed

theorem price_path_piecewise_linear_witness:
  "(5::nat) < 27
   \<and> (''Malaysia'', \<lparr>p2024 = 0, p2030 = 12, p2045 = 63\<rparr>) \<in> set (scenario_trajectories ''delayed'')
   \<and> (\<exists>rows. simulate_price_convergence ''delayed'' = Inr rows \<and>
        map_of (rows ! 5) ''year'' = Some 2029 \<and> map_of (rows ! 5) ''Malaysia'' = Some 10)"
proof -
  have lt: "(5::nat) < 27" by simp
  have my: "(''Malaysia'', \<lparr>p2024 = 0, p2030 = 12, p2045 = 63\<rparr>)
      \<in> set (scenario_trajectories ''delayed'')"
    by (simp add: scenario_trajectories_def trajectories_def)
  obtain rows where rows: "simulate_price_convergence ''delayed'' = Inr rows"
    and each: "\<forall>i<27. map_of (rows ! i) ''year'' = Some (of_int (2024 + int i)) \<and>
         (\<forall>(cname, a) \<in> set (scenario_trajectories ''delayed'').
            map_of (rows ! i) cname =
              Some (spec_price_path 2024 (p2024 a) 2030 (p2030 a) 2045 (p2045 a)
                      (2024 + int i)))"
    using price_path_piecewise_linear [THEN conjunct1, rule_format, of "''delayed''"] by blast
  have "map_of (rows ! 5) ''year'' = Some (of_int (2024 + int 5)) \<and>
      map_of (rows ! 5) ''Malaysia'' = Some (spec_price_path 2024 0 2030 12 2045 63 (2024 + int 5))"
    using each lt my by fastforce
  then have "map_of (rows ! 5) ''year'' = Some 2029 \<and> map_of (rows ! 5) ''Malaysia'' = Some 10"
    by (simp add: spec_price_path_def)
  then show ?thesis using lt my rows by blast
qed

text \<open>
  C5. Scenario "accelerated" is the baseline table with each country's 2030 anchor
  multiplied by 1.2 and its 2045 anchor by 1.1, both factors above 1, applied once to
  the anchors before any year is computed. In the rows returned, the accelerated price
  of every country equals the baseline price in 2024 and is strictly above it in every
  later year (2030 is row 6); the same holds of the per-year price for every integer
  year.
\<close>

theorem accelerated_above_baseline:
  "scenario_trajectories ''accelerated''
     = map (\<lambda>(cname, a). (cname, \<lparr>p2024 = p2024 a, p2030 = p2030 a * (12 / 10),
                                    p2045 = p2045 a * (11 / 10)\<rparr>))
         (scenario_trajectories ''baseline'')
   \<and> (1::real) < 12 / 10 \<and> (1::real) < 11 / 10
   \<and> (\<exists>rb ra. simulate_price_convergence ''baseline'' = Inr rb \<and>
        simulate_price_convergence ''accelerated'' = Inr ra \<and>
        length rb = 27 \<and> length ra = 27 \<and>
        (\<forall>i<27. map_of (rb ! i) ''year'' = Some (of_int (2024 + int i)) \<and>
                 map_of (ra ! i) ''year'' = Some (of_int (2024 + int i)) \<and>
           (\<forall>cname \<in> fst ` set trajectories. \<exists>pb pa.
              map_of (rb ! i) cname = Some pb \<and> map_of (ra ! i) cname = Some pa \<and>
              (i = 0 \<longrightarrow> pa = pb) \<and> (0 < i \<longrightarrow> pb < pa))))
   \<and> (\<forall>Y. \<forall>(cname, a) \<in> set trajectories.
        (Y \<le> 2024 \<longrightarrow>
           country_price Y (a\<lparr>p2030 := p2030 a * (12 / 10), p2045 := p2045 a * (11 / 10)\<rparr>)
             = country_price Y a) \<and>
        (2024 < Y \<longrightarrow>
           country_price Y a
             < country_price Y (a\<lparr>p2030 := p2030 a * (12 / 10), p2045 := p2045 a * (11 / 10)\<rparr>)))"
proof -
  have tab: "scenario_trajectories ''accelerated''
     = map (\<lambda>(cname, a). (cname, \<lparr>p2024 = p2024 a, p2030 = p2030 a * (12 / 10),
                                    p2045 = p2045 a * (11 / 10)\<rparr>))
         (scenario_trajectories ''baseline'')"
    by (simp add: scenario_trajectories_def trajectories_def)
  have per_year: "(Y \<le> 2024 \<longrightarrow>
           country_price Y (a\<lparr>p2030 := p2030 a * (12 / 10), p2045 := p2045 a * (11 / 10)\<rparr>)
             = country_price Y a) \<and>
        (2024 < Y \<longrightarrow>
           country_price Y a
             < country_price Y (a\<lparr>p2030 := p2030 a * (12 / 10), p2045 := p2045 a * (11 / 10)\<rparr>))"
    if "(cname, a) \<in> set trajectories" for Y cname a
    using trajectories_pos [OF that]
      country_price_scaled [of a "12 / 10" "11 / 10" Y] by simp
  obtain rb where rb: "simulate_price_convergence ''baseline'' = Inr rb" "length rb = 27"
    and eb: "\<forall>i<27. \<exists>mx mn.
        py_max (active_prices (price_row (scenario_trajectories ''baseline'') (2024 + int i))) = Inr mx \<and>
        py_min (active_prices (price_row (scenario_trajectories ''baseline'') (2024 + int i))) = Inr mn \<and>
        0 < mn \<and> mn \<le> mx \<and>
        rb ! i = price_row (scenario_trajectories ''baseline'') (2024 + int i) @ [(''spread'', mx / mn)]"
    using simulate_rows_shape [of "''baseline''"] by blast
  obtain ra where ra: "simulate_price_convergence ''accelerated'' = Inr ra" "length ra = 27"
    and ea: "\<forall>i<27. \<exists>mx mn.
        py_max (active_prices (price_row (scenario_trajectories ''accelerated'') (2024 + int i))) = Inr mx \<and>
        py_min (active_prices (price_row (scenario_trajectories ''accelerated'') (2024 + int i))) = Inr mn \<and>
        0 < mn \<and> mn \<le> mx \<and>
        ra ! i = price_row (scenario_trajectories ''accelerated'') (2024 + int i) @ [(''spread'', mx / mn)]"
    using simulate_rows_shape [of "''accelerated''"] by blast
  have rows: "map_of (rb ! i) ''year'' = Some (of_int (2024 + int i)) \<and>
                 map_of (ra ! i) ''year'' = Some (of_int (2024 + int i)) \<and>
           (\<forall>cname \<in> fst ` set trajectories. \<exists>pb pa.
              map_of (rb ! i) cname = Some pb \<and> map_of (ra ! i) cname = Some pa \<and>
              (i = 0 \<longrightarrow> pa = pb) \<and> (0 < i \<longrightarrow> pb < pa))" if lt: "i < 27" for i
  proof -
    obtain vb where b: "rb ! i = price_row (scenario_trajectories ''baseline'') (2024 + int i)
        @ [(''spread'', vb)]"
      using eb lt by blast
    obtain va where a: "ra ! i = price_row (scenario_trajectories ''accelerated'') (2024 + int i)
        @ [(''spread'', va)]"
      using ea lt by blast
    have "map_of (rb ! i) ''year'' = Some (of_int (2024 + int i))"
      unfolding b by (simp add: price_row_def map_add_Some_iff)
    moreover have "map_of (ra ! i) ''year'' = Some (of_int (2024 + int i))"
      unfolding a by (simp add: price_row_def map_add_Some_iff)
    moreover have "\<exists>pb pa.
              map_of (rb ! i) cname = Some pb \<and> map_of (ra ! i) cname = Some pa \<and>
              (i = 0 \<longrightarrow> pa = pb) \<and> (0 < i \<longrightarrow> pb < pa)"
      if cn: "cname \<in> fst ` set trajectories" for cname
    proof -
      obtain an where an: "(cname, an) \<in> set trajectories" using cn by force
      let ?acc = "an\<lparr>p2030 := p2030 an * (12 / 10), p2045 := p2045 an * (11 / 10)\<rparr>"
      have "(cname, an) \<in> set (scenario_trajectories ''baseline'')"
        using an by (simp add: baseline_trajectories)
      then have pb: "map_of (rb ! i) cname = Some (country_price (2024 + int i) an)"
        unfolding b
        by (rule map_of_price_row(1) [OF trajectories_keys(1) _ trajectories_keys(2)])
      have "(cname, ?acc) \<in> set (scenario_trajectories ''accelerated'')"
        using an by (rule accelerated_member)
      then have pa: "map_of (ra ! i) cname = Some (country_price (2024 + int i) ?acc)"
        unfolding a
        by (rule map_of_price_row(1) [OF trajectories_keys(1) _ trajectories_keys(2)])
      have "i = 0 \<longrightarrow> country_price (2024 + int i) ?acc = country_price (2024 + int i) an"
        using per_year [OF an, of "2024 + int i"] by simp
      moreover have "0 < i \<longrightarrow> country_price (2024 + int i) an < country_price (2024 + int i) ?acc"
        using per_year [OF an, of "2024 + int i"] by simp
      ultimately show ?thesis using pb pa by blast
    qed
    ultimately show ?thesis by blast
  qed
  have "\<exists>rb ra. simulate_price_convergence ''baseline'' = Inr rb \<and>
        simulate_price_convergence ''accelerated'' = Inr ra \<and>
        length rb = 27 \<and> length ra = 27 \<and>
        (\<forall>i<27. map_of (rb ! i) ''year'' = Some (of_int (2024 + int i)) \<and>
                 map_of (ra ! i) ''year'' = Some (of_int (2024 + int i)) \<and>
           (\<forall>cname \<in> fst ` set trajectories. \<exists>pb pa.
              map_of (rb ! i) cname = Some pb \<and> map_of (ra ! i) cname = Some pa \<and>
              (i = 0 \<longrightarrow> pa = pb) \<and> (0 < i \<longrightarrow> pb < pa)))"
    using rb ra rows by blast
  moreover have "\<forall>Y. \<forall>(cname, a) \<in> set trajectories.
        (Y \<le> 2024 \<longrightarrow>
           country_price Y (a\<lparr>p2030 := p2030 a * (12 / 10), p2045 := p2045 a * (11 / 10)\<rparr>)
             = country_price Y a) \<and>
        (2024 < Y \<longrightarrow>
           country_price Y a
             < country_price Y (a\<lparr>p2030 := p2030 a * (12 / 10), p2045 := p2045 a * (11 / 10)\<rparr>))"
    using per_year by blast
  ultimately show ?thesis
    using tab by simp
qed

theorem accelerated_above_baseline_witness:
  "(6::nat) < 27 \<and> ''Singapore'' \<in> fst ` set trajectories
   \<and> (\<exists>rb ra pb pa. simulate_price_convergence ''baseline'' = Inr rb \<and>
        simulate_price_convergence ''accelerated'' = Inr ra \<and>
        map_of (rb ! 6) ''year'' = Some 2030 \<and> map_of (ra ! 6) ''year'' = Some 2030 \<and>
        map_of (rb ! 6) ''Singapore'' = Some pb \<and> map_of (ra ! 6) ''Singapore'' = Some pa \<and>
        pb < pa)
   \<and> (''Malaysia'', \<lparr>p2024 = 0, p2030 = 15, p2045 = 70\<rparr>) \<in> set trajectories
   \<and> country_price 2030 \<lparr>p2024 = 0, p2030 = 15, p2045 = 70\<rparr> = 15
   \<and> country_price 2030 \<lparr>p2024 = 0, p2030 = 15 * (12 / 10), p2045 = 70 * (11 / 10)\<rparr> = 18"
proof -
  have lt: "(6::nat) < 27" by simp
  have sg: "''Singapore'' \<in> fst ` set trajectories"
    by (simp add: trajectories_def)
  have my: "(''Malaysia'', \<lparr>p2024 = 0, p2030 = 15, p2045 = 70\<rparr>) \<in> set trajectories"
    by (simp add: trajectories_def)
  obtain rb ra where r: "simulate_price_convergence ''baseline'' = Inr rb"
      "simulate_price_convergence ''accelerated'' = Inr ra"
    and each: "\<forall>i<27. map_of (rb ! i) ''year'' = Some (of_int (2024 + int i)) \<and>
                 map_of (ra ! i) ''year'' = Some (of_int (2024 + int i)) \<and>
           (\<forall>cname \<in> fst ` set trajectories. \<exists>pb pa.
              map_of (rb ! i) cname = Some pb \<and> map_of (ra ! i) cname = Some pa \<and>
              (i = 0 \<longrightarrow> pa = pb) \<and> (0 < i \<longrightarrow> pb < pa))"
    using accelerated_above_baseline by blast
  have "map_of (rb ! 6) ''year'' = Some (of_int (2024 + int 6)) \<and>
        map_of (ra ! 6) ''year'' = Some (of_int (2024 + int 6)) \<and>
        (\<exists>pb pa. map_of (rb ! 6) ''Singapore'' = Some pb \<and>
           map_of (ra ! 6) ''Singapore'' = Some pa \<and> ((0::nat) < 6 \<longrightarrow> pb < pa))"
    using each lt sg by blast
  then have "\<exists>pb pa. map_of (rb ! 6) ''year'' = Some 2030 \<and> map_of (ra ! 6) ''year'' = Some 2030 \<and>
        map_of (rb ! 6) ''Singapore'' = Some pb \<and> map_of (ra ! 6) ''Singapore'' = Some pa \<and>
        pb < pa"
    by simp
  then have rows: "\<exists>rb ra pb pa. simulate_price_convergence ''baseline'' = Inr rb \<and>
        simulate_price_convergence ''accelerated'' = Inr ra \<and>
        map_of (rb ! 6) ''year'' = Some 2030 \<and> map_of (ra ! 6) ''year'' = Some 2030 \<and>
        map_of (rb ! 6) ''Singapore'' = Some pb \<and> map_of (ra ! 6) ''Singapore'' = Some pa \<and>
        pb < pa"
    using r by blast
  have "country_price 2030 \<lparr>p2024 = 0, p2030 = 15, p2045 = 70\<rparr> = 15"
    "country_price 2030 \<lparr>p2024 = 0, p2030 = 15 * (12 / 10), p2045 = 70 * (11 / 10)\<rparr> = 18"
    by (simp_all add: country_price_def)
  then show ?thesis using lt sg my rows by blast
qed

text \<open>
  C6 as stated fails: a scenario name outside the three is not reported as an error;
  the call succeeds and returns what "baseline" returns.
\<close>

theorem unknown_scenario_is_baseline:
  "\<not> isl (simulate_price_convergence ''hyperdrive'')
   \<and> simulate_price_convergence ''hyperdrive'' = simulate_price_convergence ''baseline''"
proof -
  have "scenario_trajectories ''hyperdrive'' = scenario_trajectories ''baseline''"
    by (simp add: scenario_trajectories_def)
  then have "simulate_price_convergence ''hyperdrive'' = simulate_price_convergence ''baseline''"
    by (simp add: simulate_price_convergence_def)
  moreover have "\<not> isl (simulate_price_convergence ''hyperdrive'')"
    by (simp only: simulate_closed sum.disc not_False_eq_True)
  ultimately show ?thesis by blast
qed

text \<open>
  C6, amended. \<^verbatim>\<open>simulate_price_convergence\<close> takes a scenario name only; its year range
  is fixed to 2024..2050, so it is never empty or unordered. No call fails: for every
  scenario name the 27 rows of those years are returned. A name other than
  "accelerated" and "delayed" gives the result of "baseline".
\<close>

theorem simulate_never_fails:
  "(\<forall>scenario. \<exists>rows. simulate_price_convergence scenario = Inr rows \<and>
      map (\<lambda>r. map_of r ''year'') rows = map (\<lambda>y. Some (of_int y)) [2024..2050])
   \<and> (\<forall>scenario. scenario \<noteq> ''accelerated'' \<and> scenario \<noteq> ''delayed'' \<longrightarrow>
        simulate_price_convergence scenario = simulate_price_convergence ''baseline'')"
proof (intro conjI allI impI)
  fix scenario :: string
  obtain rows where rows: "simulate_price_convergence scenario = Inr rows" "length rows = 27"
    and each: "\<forall>i<27. \<exists>mx mn.
        py_max (active_prices (price_row (scenario_trajectories scenario) (2024 + int i))) = Inr mx \<and>
        py_min (active_prices (price_row (scenario_trajectories scenario) (2024 + int i))) = Inr mn \<and>
        0 < mn \<and> mn \<le> mx \<and>
        rows ! i = price_row (scenario_trajectories scenario) (2024 + int i) @ [(''spread'', mx / mn)]"
    using simulate_rows_shape [of scenario] by blast
  have "map (\<lambda>r. map_of r ''year'') rows = map (\<lambda>y. Some (of_int y)) [2024..2050]"
  proof (rule nth_equalityI)
    show "length (map (\<lambda>r. map_of r ''year'') rows)
        = length (map (\<lambda>y. Some (real_of_int y)) [2024..2050])"
      using rows(2) by (simp only: length_map upto_27_length)
  next
    fix i assume "i < length (map (\<lambda>r. map_of r ''year'') rows)"
    then have lt: "i < 27" using rows(2) by simp
    then obtain v where
      r: "rows ! i = price_row (scenario_trajectories scenario) (2024 + int i) @ [(''spread'', v)]"
      using each by blast
    have "map_of (rows ! i) ''year'' = Some (of_int (2024 + int i))"
      unfolding r by (simp add: price_row_def map_add_Some_iff)
    then show "map (\<lambda>r. map_of r ''year'') rows ! i
        = map (\<lambda>y. Some (real_of_int y)) [2024..2050] ! i"
      using lt rows(2) by (simp only: nth_map upto_27_length upto_27_nth)
  qed
  then show "\<exists>rows. simulate_price_convergence scenario = Inr rows \<and>
      map (\<lambda>r. map_of r ''year'') rows = map (\<lambda>y. Some (of_int y)) [2024..2050]"
    using rows(1) by blast
next
  fix scenario :: string
  assume "scenario \<noteq> ''accelerated'' \<and> scenario \<noteq> ''delayed''"
  then have "scenario_trajectories scenario = scenario_trajectories ''baseline''"
    by (simp add: other_scenario baseline_trajectories)
  then show "simulate_price_convergence scenario = simulate_price_convergence ''baseline''"
    by (simp add: simulate_price_convergence_def)
qed

theorem simulate_never_fails_witness:
  "''2024-2030'' \<noteq> ''accelerated'' \<and> ''2024-2030'' \<noteq> ''delayed''
   \<and> simulate_price_convergence ''2024-2030'' = simulate_price_convergence ''baseline''
   \<and> (\<exists>rows. simulate_price_convergence ''2024-2030'' = Inr rows \<and>
        map (\<lambda>r. map_of r ''year'') rows = map (\<lambda>y. Some (of_int y)) [2024..2050])"
  using simulate_never_fails [THEN conjunct1, rule_format, of "''2024-2030''"]
    simulate_never_fails [THEN conjunct2, rule_format, of "''2024-2030''"]
  by simp

end
